theory Spec2Isabelle
  imports Main "HOL-Library.Word"
begin

section \<open>Property lists\<close>

text \<open>
  The lockdownd client of \<^verbatim>\<open>lockdown.c\<close> exchanges property lists with the device.
  A node of the plist library is one of the typed values below; a \<^verbatim>\<open>plist_t\<close> is a
  pointer to a node and may be \<^verbatim>\<open>NULL\<close>, hence an option. A dictionary keeps its
  entries in insertion order. Reals and dates carry their raw 64 bits: no function of
  \<^verbatim>\<open>lockdown.c\<close> reads them.
\<close>

datatype plist =
    PLIST_BOOLEAN bool
  | PLIST_UINT "64 word"
  | PLIST_REAL "64 word"
  | PLIST_STRING string
  | PLIST_ARRAY "plist list"
  | PLIST_DICT "(string \<times> plist) list"
  | PLIST_DATE "64 word"
  | PLIST_DATA string

type_synonym plist_t = "plist option"

definition plist_new_dict :: plist where
  "plist_new_dict = PLIST_DICT []"

text \<open>\<^verbatim>\<open>plist_dict_insert_item\<close> appends the entry to a dictionary and leaves any other
  node alone.\<close>

fun plist_dict_insert_item :: "plist \<Rightarrow> string \<Rightarrow> plist \<Rightarrow> plist" where
  "plist_dict_insert_item (PLIST_DICT kvs) k v = PLIST_DICT (kvs @ [(k, v)])"
| "plist_dict_insert_item p k v = p"

text \<open>\<^verbatim>\<open>plist_dict_get_item\<close> returns the first entry stored under the key, and
  \<^verbatim>\<open>NULL\<close> when the node is \<^verbatim>\<open>NULL\<close>, is not a dictionary or has no such key.\<close>

fun plist_dict_get_item :: "plist_t \<Rightarrow> string \<Rightarrow> plist_t" where
  "plist_dict_get_item (Some (PLIST_DICT kvs)) k = map_of kvs k"
| "plist_dict_get_item p k = None"

text \<open>The typed getters write their output only when the node has the requested type;
  the callers initialise the output to \<^verbatim>\<open>NULL\<close> (or 0).\<close>

fun plist_get_string_val :: "plist_t \<Rightarrow> string option" where
  "plist_get_string_val (Some (PLIST_STRING s)) = Some s"
| "plist_get_string_val p = None"

fun plist_get_data_val :: "plist_t \<Rightarrow> string option" where
  "plist_get_data_val (Some (PLIST_DATA s)) = Some s"
| "plist_get_data_val p = None"

section \<open>Checking the result of a request\<close>

definition RESULT_SUCCESS :: int where "RESULT_SUCCESS = 0"
definition RESULT_FAILURE :: int where "RESULT_FAILURE = 1"

text \<open>\<^verbatim>\<open>lockdown_check_result\<close> (lines 60--109). \<^verbatim>\<open>ret\<close> starts at \<^verbatim>\<open>-1\<close> and is
  returned unchanged on every path but the two that recognise the result string.\<close>

definition lockdown_check_result :: "plist_t \<Rightarrow> string \<Rightarrow> int" where
  "lockdown_check_result dict query_match =
     (let ret = -1 in
      case plist_dict_get_item dict ''Request'' of
        None \<Rightarrow> ret
      | Some query_node \<Rightarrow>
          (case query_node of
             PLIST_STRING query_value \<Rightarrow>
               if query_value \<noteq> query_match then ret
               else
                 (case plist_dict_get_item dict ''Result'' of
                    None \<Rightarrow> ret
                  | Some result_node \<Rightarrow>
                      (case result_node of
                         PLIST_STRING result_value \<Rightarrow>
                           if result_value = ''Success'' then RESULT_SUCCESS
                           else if result_value = ''Failure'' then RESULT_FAILURE
                           else ret
                       | _ \<Rightarrow> ret))
           | _ \<Rightarrow> ret))"

text \<open>\<^verbatim>\<open>plist_dict_add_label\<close> (lines 118--124).\<close>

definition plist_dict_add_label :: "plist \<Rightarrow> string option \<Rightarrow> plist" where
  "plist_dict_add_label p lbl =
     (case lbl of
        None \<Rightarrow> p
      | Some l \<Rightarrow> plist_dict_insert_item p ''Label'' (PLIST_STRING l))"

section \<open>Errors, the client handle and its environment\<close>

text \<open>The error codes of \<^verbatim>\<open>lockdown.h\<close> that \<^verbatim>\<open>lockdown.c\<close> returns.\<close>

datatype lockdownd_error =
    LOCKDOWN_E_SUCCESS
  | LOCKDOWN_E_INVALID_ARG
  | LOCKDOWN_E_INVALID_CONF
  | LOCKDOWN_E_PLIST_ERROR
  | LOCKDOWN_E_PAIRING_FAILED
  | LOCKDOWN_E_SSL_ERROR
  | LOCKDOWN_E_START_SERVICE_FAILED
  | LOCKDOWN_E_NOT_ENOUGH_DATA
  | LOCKDOWN_E_MUX_ERROR
  | LOCKDOWN_E_ACTIVATION_FAILED
  | LOCKDOWN_E_PASSWORD_PROTECTED
  | LOCKDOWN_E_NO_RUNNING_SESSION
  | LOCKDOWN_E_INVALID_HOST_ID
  | LOCKDOWN_E_UNKNOWN_ERROR

datatype userpref_error =
    USERPREF_E_SUCCESS
  | USERPREF_E_INVALID_ARG
  | USERPREF_E_INVALID_CONF
  | USERPREF_E_SSL_ERROR
  | USERPREF_E_UNKNOWN_ERROR

text \<open>
  \<^verbatim>\<open>struct lockdownd_client_int\<close>, as \<^verbatim>\<open>lockdownd_client_new\<close> initialises it. The
  handles \<^verbatim>\<open>parent\<close>, \<^verbatim>\<open>ssl_session\<close> and \<^verbatim>\<open>ssl_certificate\<close> are opaque pointers
  into the transport and the TLS library; what they do is part of the environment
  below. A client handle is a valid pointer throughout: the \<^verbatim>\<open>!client\<close> guards are
  not modelled.
\<close>

record lockdownd_client =
  ssl_enabled :: bool
  session_id :: "string option"
  uuid :: "string option"
  label :: "string option"

text \<open>
  Modelled from the spec: the trust store (\<^verbatim>\<open>userpref.c\<close>, not among the sources). It
  holds the host id, the map from device uuid to device public key, and the host and
  root credentials, of which the model keeps what the two credential getters answer.
\<close>

record userpref =
  up_host_id :: "string option"
  up_device_keys :: "string \<rightharpoonup> string"
  up_keys_and_certs :: userpref_error
  up_certs_as_pem :: "userpref_error \<times> string \<times> string"

text \<open>Modelled from the spec: \<^verbatim>\<open>get_host_id() -> Option<String>\<close>.\<close>

definition userpref_get_host_id :: "userpref \<Rightarrow> string option" where
  "userpref_get_host_id up = up_host_id up"

text \<open>Modelled from the spec: \<^verbatim>\<open>has_device_public_key(uuid) -> bool\<close>.\<close>

definition userpref_has_device_public_key :: "string \<Rightarrow> userpref \<Rightarrow> bool" where
  "userpref_has_device_public_key u up = (up_device_keys up u \<noteq> None)"

text \<open>Modelled from the spec: \<^verbatim>\<open>set_device_public_key(uuid, pem_bytes)\<close> stores
  \<^verbatim>\<open>device_uuid -> device_public_key\<close>.\<close>

definition userpref_set_device_public_key :: "string \<Rightarrow> string \<Rightarrow> userpref \<Rightarrow> userpref" where
  "userpref_set_device_public_key u key up = up\<lparr>up_device_keys := (up_device_keys up)(u \<mapsto> key)\<rparr>"

text \<open>Modelled from the spec: \<^verbatim>\<open>remove_device_public_key(uuid)\<close> removes
  \<^verbatim>\<open>device_uuid -> device_public_key\<close>.\<close>

definition userpref_remove_device_public_key :: "string \<Rightarrow> userpref \<Rightarrow> userpref" where
  "userpref_remove_device_public_key u up = up\<lparr>up_device_keys := (up_device_keys up)(u := None)\<rparr>"

text \<open>
  What the crypto libraries (GnuTLS, libtasn1) answer in \<^verbatim>\<open>lockdownd_gen_pair_cert\<close>:
  the base64 decoding of the PEM key into DER (\<^verbatim>\<open>gnutls_pem_base64_decode_alloc\<close>), the
  ASN.1 decoding of the DER into modulus and exponent (\<^verbatim>\<open>asn1_array2tree\<close>,
  \<^verbatim>\<open>asn1_der_decoding\<close> and the two \<^verbatim>\<open>asn1_read_value\<close>), whether the raw key imports,
  and the PEM export of the signed device certificate.
\<close>

record crypto_lib =
  pem_base64_decode :: "string \<Rightarrow> string option"
  rsa_public_key_decode :: "string \<Rightarrow> (string \<times> string) option"
  privkey_import_rsa_raw :: "string \<Rightarrow> string \<Rightarrow> bool"
  sign_device_cert :: "string \<Rightarrow> string \<Rightarrow> string"

text \<open>
  What travels between client and device, in order: every plist handed to the plist
  service for sending (with the flag of the encrypted variant), every plist received,
  the TLS handshake and the TLS close notify.
\<close>

datatype wire_event =
    Sent bool plist
  | Received plist
  | TlsHandshake
  | TlsCloseNotify

text \<open>
  The environment of a client. The device and the transport are scripts: the outcomes
  of the coming sends, receives and TLS handshakes, consumed in order. A receive
  answers whether the plist service reported success and the plist it stored, if any.
  An exhausted script means the transport is gone: the call fails. \<^verbatim>\<open>wire\<close> is the
  log of what has travelled. \<^verbatim>\<open>client_allocated\<close> tells whether the client structure
  is on the heap, \<^verbatim>\<open>service_free_ok\<close> whether \<^verbatim>\<open>property_list_service_client_free\<close>
  will report success.
\<close>

record world =
  trust :: userpref
  crypto :: crypto_lib
  wire :: "wire_event list"
  sends :: "bool list"
  replies :: "(bool \<times> plist_t) list"
  handshakes :: "bool list"
  client_allocated :: bool
  service_free_ok :: bool

text \<open>Modelled from the spec: the plist service (\<^verbatim>\<open>property_list_service.c\<close>, not among
  the sources) sends one framed plist, in plaintext or through the TLS session.\<close>

definition property_list_service_send :: "bool \<Rightarrow> plist \<Rightarrow> world \<Rightarrow> bool \<times> world" where
  "property_list_service_send encrypted p w =
     (case sends w of
        [] \<Rightarrow> (False, w\<lparr>wire := wire w @ [Sent encrypted p]\<rparr>)
      | ok # rest \<Rightarrow> (ok, w\<lparr>wire := wire w @ [Sent encrypted p], sends := rest\<rparr>))"

text \<open>Modelled from the spec: the plist service receives one framed plist; a missing or
  unparseable response leaves the output \<^verbatim>\<open>NULL\<close>.\<close>

definition property_list_service_receive :: "world \<Rightarrow> (bool \<times> plist_t) \<times> world" where
  "property_list_service_receive w =
     (case replies w of
        [] \<Rightarrow> ((False, None), w)
      | (ok, p) # rest \<Rightarrow>
          ((ok, p), w\<lparr>wire := wire w @ (case p of None \<Rightarrow> [] | Some d \<Rightarrow> [Received d]),
                      replies := rest\<rparr>))"

text \<open>\<^verbatim>\<open>gnutls_handshake\<close>: the next outcome of the handshake script.\<close>

definition gnutls_handshake :: "world \<Rightarrow> bool \<times> world" where
  "gnutls_handshake w =
     (case handshakes w of
        [] \<Rightarrow> (False, w\<lparr>wire := wire w @ [TlsHandshake]\<rparr>)
      | ok # rest \<Rightarrow> (ok, w\<lparr>wire := wire w @ [TlsHandshake], handshakes := rest\<rparr>))"

text \<open>\<^verbatim>\<open>gnutls_bye\<close> sends the close notify.\<close>

definition gnutls_bye :: "world \<Rightarrow> world" where
  "gnutls_bye w = w\<lparr>wire := wire w @ [TlsCloseNotify]\<rparr>"

section \<open>Sending and receiving\<close>

text \<open>\<^verbatim>\<open>lockdownd_recv\<close> (lines 407--430), called with \<^verbatim>\<open>*plist == NULL\<close>.\<close>

definition lockdownd_recv :: "lockdownd_client \<Rightarrow> world \<Rightarrow> lockdownd_error \<times> plist_t \<times> world" where
  "lockdownd_recv client w =
     (let ((ok, p), w') = property_list_service_receive w in
      if \<not> ssl_enabled client then
        (let ret = (if \<not> ok then LOCKDOWN_E_UNKNOWN_ERROR else LOCKDOWN_E_SUCCESS) in
         (if p = None then LOCKDOWN_E_PLIST_ERROR else ret, p, w'))
      else if \<not> ok then (LOCKDOWN_E_SSL_ERROR, p, w')
      else (if p = None then LOCKDOWN_E_PLIST_ERROR else LOCKDOWN_E_SUCCESS, p, w'))"

text \<open>\<^verbatim>\<open>lockdownd_send\<close> (lines 442--462).\<close>

definition lockdownd_send :: "lockdownd_client \<Rightarrow> plist \<Rightarrow> world \<Rightarrow> lockdownd_error \<times> world" where
  "lockdownd_send client p w =
     (if \<not> ssl_enabled client then
        (let (ok, w') = property_list_service_send False p w in
         (if \<not> ok then LOCKDOWN_E_UNKNOWN_ERROR else LOCKDOWN_E_SUCCESS, w'))
      else
        (let (ok, w') = property_list_service_send True p w in
         (if \<not> ok then LOCKDOWN_E_SSL_ERROR else LOCKDOWN_E_SUCCESS, w')))"

section \<open>The TLS session and StopSession\<close>

text \<open>\<^verbatim>\<open>lockdownd_ssl_start_session\<close> (lines 204--254): \<^verbatim>\<open>ssl_enabled\<close> is set only
  when the handshake succeeds.\<close>

definition lockdownd_ssl_start_session ::
    "lockdownd_client \<Rightarrow> world \<Rightarrow> lockdownd_error \<times> lockdownd_client \<times> world" where
  "lockdownd_ssl_start_session client w =
     (let (ok, w') = gnutls_handshake w in
      if \<not> ok then (LOCKDOWN_E_SSL_ERROR, client, w')
      else (LOCKDOWN_E_SUCCESS, client\<lparr>ssl_enabled := True\<rparr>, w'))"

text \<open>\<^verbatim>\<open>lockdownd_ssl_stop_session\<close> (lines 264--291).\<close>

definition lockdownd_ssl_stop_session ::
    "lockdownd_client \<Rightarrow> world \<Rightarrow> lockdownd_error \<times> lockdownd_client \<times> world" where
  "lockdownd_ssl_stop_session client w =
     (let w' = (if ssl_enabled client then gnutls_bye w else w) in
      (LOCKDOWN_E_SUCCESS, client\<lparr>ssl_enabled := False, session_id := None\<rparr>, w'))"

text \<open>\<^verbatim>\<open>lockdownd_stop_session\<close> (lines 304--347). The result of the send is
  overwritten by that of the receive, and only the received plist is looked at.\<close>

definition lockdownd_stop_session ::
    "lockdownd_client \<Rightarrow> string option \<Rightarrow> world \<Rightarrow> lockdownd_error \<times> lockdownd_client \<times> world" where
  "lockdownd_stop_session client sid w =
     (case sid of
        None \<Rightarrow> (LOCKDOWN_E_INVALID_ARG, client, w)
      | Some s \<Rightarrow>
          (let dict = plist_dict_add_label plist_new_dict (label client);
               dict = plist_dict_insert_item dict ''Request'' (PLIST_STRING ''StopSession'');
               dict = plist_dict_insert_item dict ''SessionID'' (PLIST_STRING s);
               (ret, w1) = lockdownd_send client dict w;
               (ret, dict, w2) = lockdownd_recv client w1
           in if dict = None then (LOCKDOWN_E_PLIST_ERROR, client, w2)
              else
                (let ret = (if lockdown_check_result dict ''StopSession'' = RESULT_SUCCESS
                            then LOCKDOWN_E_SUCCESS else LOCKDOWN_E_UNKNOWN_ERROR);
                     (r, client', w3) = lockdownd_ssl_stop_session client w2
                 in (ret, client', w3))))"

section \<open>Goodbye, freeing a client, QueryType and GetValue\<close>

text \<open>\<^verbatim>\<open>lockdownd_goodbye\<close> (lines 1069--1099).\<close>

definition lockdownd_goodbye :: "lockdownd_client \<Rightarrow> world \<Rightarrow> lockdownd_error \<times> world" where
  "lockdownd_goodbye client w =
     (let dict = plist_dict_add_label plist_new_dict (label client);
          dict = plist_dict_insert_item dict ''Request'' (PLIST_STRING ''Goodbye'');
          (ret, w1) = lockdownd_send client dict w;
          (ret, dict, w2) = lockdownd_recv client w1
      in if dict = None then (LOCKDOWN_E_PLIST_ERROR, w2)
         else if lockdown_check_result dict ''Goodbye'' = RESULT_SUCCESS
              then (LOCKDOWN_E_SUCCESS, w2)
              else (ret, w2))"

text \<open>
  The device handle and the two things the client asks of it: whether a plist service
  client connects to port \<^verbatim>\<open>0xf27e\<close> on it, and what \<^verbatim>\<open>iphone_device_get_uuid\<close>
  answers (\<^verbatim>\<open>None\<close> when that call fails).
\<close>

record iphone_device =
  dev_connects :: bool
  dev_uuid :: "string option"

text \<open>\<^verbatim>\<open>lockdownd_client_free\<close> (lines 355--381). \<^verbatim>\<open>parent\<close> is never \<^verbatim>\<open>NULL\<close> in a
  client made by \<^verbatim>\<open>lockdownd_client_new\<close>.\<close>

definition lockdownd_client_free :: "lockdownd_client \<Rightarrow> world \<Rightarrow> lockdownd_error \<times> world" where
  "lockdownd_client_free client w =
     (let (client1, w1) =
            (if session_id client \<noteq> None
             then (let (r, c', w') = lockdownd_stop_session client (session_id client) w in (c', w'))
             else (client, w));
          (r, w2) = lockdownd_goodbye client1 w1;
          ret = (if service_free_ok w2 then LOCKDOWN_E_SUCCESS else LOCKDOWN_E_UNKNOWN_ERROR)
      in (ret, w2\<lparr>client_allocated := False\<rparr>))"

text \<open>\<^verbatim>\<open>lockdownd_query_type\<close> (lines 472--508), called with a place for the type.\<close>

definition lockdownd_query_type ::
    "lockdownd_client \<Rightarrow> world \<Rightarrow> lockdownd_error \<times> string option \<times> world" where
  "lockdownd_query_type client w =
     (let dict = plist_dict_add_label plist_new_dict (label client);
          dict = plist_dict_insert_item dict ''Request'' (PLIST_STRING ''QueryType'');
          (ret, w1) = lockdownd_send client dict w;
          (ret, dict, w2) = lockdownd_recv client w1
      in if ret \<noteq> LOCKDOWN_E_SUCCESS then (ret, None, w2)
         else if lockdown_check_result dict ''QueryType'' = RESULT_SUCCESS
              then (LOCKDOWN_E_SUCCESS, plist_get_string_val (plist_dict_get_item dict ''Type''), w2)
              else (LOCKDOWN_E_UNKNOWN_ERROR, None, w2))"

text \<open>The request of \<^verbatim>\<open>lockdownd_get_value\<close> (lines 527--536).\<close>

definition get_value_request :: "string option \<Rightarrow> string option \<Rightarrow> string option \<Rightarrow> plist" where
  "get_value_request lbl domain key =
     (let dict = plist_dict_add_label plist_new_dict lbl;
          dict = (case domain of None \<Rightarrow> dict
                  | Some d \<Rightarrow> plist_dict_insert_item dict ''Domain'' (PLIST_STRING d));
          dict = (case key of None \<Rightarrow> dict
                  | Some k \<Rightarrow> plist_dict_insert_item dict ''Key'' (PLIST_STRING k))
      in plist_dict_insert_item dict ''Request'' (PLIST_STRING ''GetValue''))"

text \<open>\<^verbatim>\<open>lockdownd_get_value\<close> (lines 519--570). After a successful receive \<^verbatim>\<open>ret\<close> is
  already \<^verbatim>\<open>LOCKDOWN_E_SUCCESS\<close> when the result is checked.\<close>

definition lockdownd_get_value ::
    "lockdownd_client \<Rightarrow> string option \<Rightarrow> string option \<Rightarrow> world
       \<Rightarrow> lockdownd_error \<times> plist_t \<times> world" where
  "lockdownd_get_value client domain key w =
     (let (ret, w1) = lockdownd_send client (get_value_request (label client) domain key) w in
      if ret \<noteq> LOCKDOWN_E_SUCCESS then (ret, None, w1)
      else
        (let (ret, dict, w2) = lockdownd_recv client w1 in
         if ret \<noteq> LOCKDOWN_E_SUCCESS then (ret, None, w2)
         else
           (let ret = (if lockdown_check_result dict ''GetValue'' = RESULT_SUCCESS
                       then LOCKDOWN_E_SUCCESS else ret)
            in if ret \<noteq> LOCKDOWN_E_SUCCESS then (ret, None, w2)
               else (ret, plist_dict_get_item dict ''Value'', w2))))"

text \<open>\<^verbatim>\<open>lockdownd_get_device_public_key\<close> (lines 710--729): the datum keeps a
  \<^verbatim>\<open>NULL\<close> data pointer unless the value is a data node.\<close>

definition lockdownd_get_device_public_key ::
    "lockdownd_client \<Rightarrow> world \<Rightarrow> lockdownd_error \<times> string option \<times> world" where
  "lockdownd_get_device_public_key client w =
     (let (ret, v, w1) = lockdownd_get_value client None (Some ''DevicePublicKey'') w in
      if ret \<noteq> LOCKDOWN_E_SUCCESS then (ret, None, w1)
      else (ret, plist_get_data_val v, w1))"

text \<open>\<^verbatim>\<open>lockdownd_client_new\<close> (lines 763--794). The duplicate of the label made at
  line 785 is not assigned to anything: the new client has no label.\<close>

definition lockdownd_client_new ::
    "iphone_device \<Rightarrow> string option \<Rightarrow> world \<Rightarrow> lockdownd_error \<times> lockdownd_client option \<times> world" where
  "lockdownd_client_new device lbl w =
     (if \<not> dev_connects device then (LOCKDOWN_E_MUX_ERROR, None, w)
      else
        (let client_loc = \<lparr>ssl_enabled = False, session_id = None, uuid = None, label = None\<rparr>
         in (LOCKDOWN_E_SUCCESS, Some client_loc, w\<lparr>client_allocated := True\<rparr>)))"

section \<open>Pairing\<close>

text \<open>The \<^verbatim>\<open>switch\<close> on the trust store's error at the end of
  \<^verbatim>\<open>lockdownd_gen_pair_cert\<close> (lines 1216--1227).\<close>

fun userpref_error_switch :: "userpref_error \<Rightarrow> lockdownd_error \<Rightarrow> lockdownd_error" where
  "userpref_error_switch USERPREF_E_INVALID_ARG ret = LOCKDOWN_E_INVALID_ARG"
| "userpref_error_switch USERPREF_E_INVALID_CONF ret = LOCKDOWN_E_INVALID_CONF"
| "userpref_error_switch USERPREF_E_SSL_ERROR ret = LOCKDOWN_E_SSL_ERROR"
| "userpref_error_switch uret ret = ret"

text \<open>
  \<^verbatim>\<open>lockdownd_gen_pair_cert\<close> (lines 1106--1237): the code, and the device, host and
  root certificates it writes. A certificate that is not written stays the empty
  datum. No device traffic and no write to the trust store. The result is \<^verbatim>\<open>None\<close>
  when the key does not decode from PEM: \<^verbatim>\<open>der_pub_key\<close> (line 1118) is then never
  written, and line 1234 hands its data pointer to \<^verbatim>\<open>gnutls_free\<close>. A DER that does
  not decode as an RSA public key leaves \<^verbatim>\<open>ret\<close> at the unknown error.
\<close>

definition lockdownd_gen_pair_cert ::
    "string option \<Rightarrow> crypto_lib \<Rightarrow> userpref
       \<Rightarrow> (lockdownd_error \<times> string \<times> string \<times> string) option" where
  "lockdownd_gen_pair_cert public_key cl up =
     (case public_key of
        None \<Rightarrow> Some (LOCKDOWN_E_INVALID_ARG, [], [], [])
      | Some key \<Rightarrow>
          (case pem_base64_decode cl key of
             None \<Rightarrow> None
           | Some der_pub_key \<Rightarrow>
               (case rsa_public_key_decode cl der_pub_key of
                  None \<Rightarrow> Some (LOCKDOWN_E_UNKNOWN_ERROR, [], [], [])
                | Some (modulus, exponent) \<Rightarrow>
                    if modulus \<noteq> [] \<and> exponent \<noteq> [] then
                      if privkey_import_rsa_raw cl modulus exponent then
                        (let uret = up_keys_and_certs up in
                         if uret = USERPREF_E_SUCCESS then
                           (let dev_pem = sign_device_cert cl modulus exponent;
                                (uret, pem_root_cert, pem_host_cert) = up_certs_as_pem up
                            in if uret = USERPREF_E_SUCCESS
                               then Some (userpref_error_switch uret LOCKDOWN_E_SUCCESS,
                                          dev_pem, pem_host_cert, pem_root_cert)
                               else Some (userpref_error_switch uret LOCKDOWN_E_SUCCESS, [], [], []))
                         else Some (userpref_error_switch uret LOCKDOWN_E_SUCCESS, [], [], []))
                      else Some (LOCKDOWN_E_SUCCESS, [], [], [])
                    else Some (LOCKDOWN_E_SUCCESS, [], [], []))))"

text \<open>The request of \<^verbatim>\<open>lockdownd_do_pair\<close> (lines 910--921).\<close>

definition pair_request ::
    "string option \<Rightarrow> string \<Rightarrow> string \<Rightarrow> string \<Rightarrow> string \<Rightarrow> string \<Rightarrow> plist" where
  "pair_request lbl device_cert host_cert host_id_loc root_cert verb =
     (let dict_record = plist_new_dict;
          dict_record = plist_dict_insert_item dict_record ''DeviceCertificate'' (PLIST_DATA device_cert);
          dict_record = plist_dict_insert_item dict_record ''HostCertificate'' (PLIST_DATA host_cert);
          dict_record = plist_dict_insert_item dict_record ''HostID'' (PLIST_STRING host_id_loc);
          dict_record = plist_dict_insert_item dict_record ''RootCertificate'' (PLIST_DATA root_cert);
          dict = plist_dict_add_label plist_new_dict lbl;
          dict = plist_dict_insert_item dict ''PairRecord'' dict_record
      in plist_dict_insert_item dict ''Request'' (PLIST_STRING verb))"

text \<open>The error of a pairing verb that did not succeed (lines 955--971): only
  \<^verbatim>\<open>PasswordProtected\<close> is told apart.\<close>

definition pair_failure_code :: "plist_t \<Rightarrow> lockdownd_error \<Rightarrow> lockdownd_error" where
  "pair_failure_code dict ret =
     (case plist_dict_get_item dict ''Error'' of
        None \<Rightarrow> ret
      | Some error_node \<Rightarrow>
          (case plist_get_string_val (Some error_node) of
             None \<Rightarrow> ret
           | Some v \<Rightarrow> if v = ''PasswordProtected'' then LOCKDOWN_E_PASSWORD_PROTECTED else ret))"

text \<open>
  \<^verbatim>\<open>lockdownd_do_pair\<close> (lines 880--976). The result is \<^verbatim>\<open>None\<close> where
  \<^verbatim>\<open>lockdownd_gen_pair_cert\<close> has none, and where the C code hands a \<^verbatim>\<open>NULL\<close> string to
  a function that reads it: the host id given to \<^verbatim>\<open>plist_new_string\<close> when neither the
  caller nor the trust store has one, and the uuid given to the trust store when the
  client has none.
\<close>

definition lockdownd_do_pair ::
    "lockdownd_client \<Rightarrow> string option \<Rightarrow> string \<Rightarrow> world \<Rightarrow> (lockdownd_error \<times> world) option" where
  "lockdownd_do_pair client host_id verb w =
     (let (ret, public_key, w1) = lockdownd_get_device_public_key client w in
      if ret \<noteq> LOCKDOWN_E_SUCCESS then Some (ret, w1)
      else
        (case lockdownd_gen_pair_cert public_key (crypto w1) (trust w1) of
           None \<Rightarrow> None
         | Some (ret, device_cert, host_cert, root_cert) \<Rightarrow>
            if ret \<noteq> LOCKDOWN_E_SUCCESS then Some (ret, w1)
            else
              (let host_id_loc = (if host_id = None then userpref_get_host_id (trust w1) else host_id) in
               case host_id_loc of
                 None \<Rightarrow> None
               | Some h \<Rightarrow>
                   (let dict = pair_request (label client) device_cert host_cert h root_cert verb;
                        (ret, w2) = lockdownd_send client dict w1
                    in if ret \<noteq> LOCKDOWN_E_SUCCESS then Some (ret, w2)
                       else
                         (let (ret, dict, w3) = lockdownd_recv client w2 in
                          if ret \<noteq> LOCKDOWN_E_SUCCESS then Some (ret, w3)
                          else
                            (let ret = (if lockdown_check_result dict verb \<noteq> RESULT_SUCCESS
                                        then LOCKDOWN_E_PAIRING_FAILED else ret)
                             in if ret = LOCKDOWN_E_SUCCESS then
                                  (case (uuid client, public_key) of
                                     (Some u, Some key) \<Rightarrow>
                                       if verb = ''Unpair''
                                       then Some (ret, w3\<lparr>trust := userpref_remove_device_public_key u (trust w3)\<rparr>)
                                       else Some (ret, w3\<lparr>trust := userpref_set_device_public_key u key (trust w3)\<rparr>)
                                   | _ \<Rightarrow> None)
                                else Some (pair_failure_code dict ret, w3)))))))"

definition lockdownd_pair :: "lockdownd_client \<Rightarrow> string option \<Rightarrow> world \<Rightarrow> (lockdownd_error \<times> world) option" where
  "lockdownd_pair client host_id w = lockdownd_do_pair client host_id ''Pair'' w"

definition lockdownd_validate_pair :: "lockdownd_client \<Rightarrow> string option \<Rightarrow> world \<Rightarrow> (lockdownd_error \<times> world) option" where
  "lockdownd_validate_pair client host_id w = lockdownd_do_pair client host_id ''ValidatePair'' w"

definition lockdownd_unpair :: "lockdownd_client \<Rightarrow> string option \<Rightarrow> world \<Rightarrow> (lockdownd_error \<times> world) option" where
  "lockdownd_unpair client host_id w = lockdownd_do_pair client host_id ''Unpair'' w"

section \<open>StartSession and the handshaking constructor\<close>

text \<open>The first step of \<^verbatim>\<open>lockdownd_start_session\<close> (lines 1257--1260): a running
  session is stopped first, whatever \<^verbatim>\<open>lockdownd_stop_session\<close> returns.\<close>

definition stop_running_session :: "lockdownd_client \<Rightarrow> world \<Rightarrow> lockdownd_client \<times> world" where
  "stop_running_session client w =
     (if session_id client \<noteq> None
      then (let (r, c', w') = lockdownd_stop_session client (session_id client) w in (c', w'))
      else (client, w))"

text \<open>
  \<^verbatim>\<open>lockdownd_start_session\<close> (lines 1249--1327). With a \<^verbatim>\<open>NULL\<close> host id the code
  sets \<^verbatim>\<open>ret\<close>, goes on and hands \<^verbatim>\<open>NULL\<close> to \<^verbatim>\<open>plist_new_string\<close>: the result is
  \<^verbatim>\<open>None\<close>. The two output pointers receive copies of \<^verbatim>\<open>use_ssl\<close> and of the
  stored session id and are left out.
\<close>

definition lockdownd_start_session ::
    "lockdownd_client \<Rightarrow> string option \<Rightarrow> world
       \<Rightarrow> (lockdownd_error \<times> lockdownd_client \<times> world) option" where
  "lockdownd_start_session client host_id w =
     (let (client1, w1) = stop_running_session client w in
      case host_id of
        None \<Rightarrow> None
      | Some h \<Rightarrow>
          (let dict = plist_dict_add_label plist_new_dict (label client1);
               dict = plist_dict_insert_item dict ''HostID'' (PLIST_STRING h);
               dict = plist_dict_insert_item dict ''Request'' (PLIST_STRING ''StartSession'');
               (ret, w2) = lockdownd_send client1 dict w1
           in if ret \<noteq> LOCKDOWN_E_SUCCESS then Some (ret, client1, w2)
              else
                (let (ret, dict, w3) = lockdownd_recv client1 w2 in
                 if dict = None then Some (LOCKDOWN_E_PLIST_ERROR, client1, w3)
                 else if lockdown_check_result dict ''StartSession'' = RESULT_FAILURE then
                   (case plist_dict_get_item dict ''Error'' of
                      Some (PLIST_STRING e) \<Rightarrow>
                        Some (if e = ''InvalidHostID'' then LOCKDOWN_E_INVALID_HOST_ID else ret,
                              client1, w3)
                    | _ \<Rightarrow> Some (ret, client1, w3))
                 else
                   (let use_ssl = (case plist_dict_get_item dict ''EnableSessionSSL'' of
                                     Some (PLIST_BOOLEAN b) \<Rightarrow> b
                                   | _ \<Rightarrow> False);
                        client2 = (case plist_dict_get_item dict ''SessionID'' of
                                     Some (PLIST_STRING s) \<Rightarrow> client1\<lparr>session_id := Some s\<rparr>
                                   | _ \<Rightarrow> client1)
                    in if use_ssl then Some (lockdownd_ssl_start_session client2 w3)
                       else Some (LOCKDOWN_E_SUCCESS, client2\<lparr>ssl_enabled := False\<rparr>, w3)))))"

text \<open>
  \<^verbatim>\<open>lockdownd_client_new_with_handshake\<close> (lines 806--868). \<^verbatim>\<open>ret\<close> is assigned anew
  by the uuid lookup and by \<^verbatim>\<open>lockdownd_validate_pair\<close>, which runs in any case; the
  results of \<^verbatim>\<open>lockdownd_client_new\<close>, of QueryType and of \<^verbatim>\<open>lockdownd_pair\<close> are
  not returned. The result is \<^verbatim>\<open>None\<close> where the code reads through \<^verbatim>\<open>NULL\<close>: the
  client when the connection failed (line 831), the type when QueryType succeeded
  without a string \<^verbatim>\<open>Type\<close> (line 824), and inside the calls. On failure the client is
  freed and none is handed out.
\<close>

definition lockdownd_client_new_with_handshake ::
    "iphone_device \<Rightarrow> string option \<Rightarrow> world
       \<Rightarrow> (lockdownd_error \<times> lockdownd_client option \<times> world) option" where
  "lockdownd_client_new_with_handshake device lbl w =
     (let (ret, client_opt, w0) = lockdownd_client_new device lbl w in
      case client_opt of
        None \<Rightarrow> None
      | Some client_loc \<Rightarrow>
          (let (qret, type, w1) = lockdownd_query_type client_loc w0 in
           if qret = LOCKDOWN_E_SUCCESS \<and> type = None then None
           else
             (let client1 = client_loc\<lparr>uuid := dev_uuid device\<rparr>;
                  host_id = userpref_get_host_id (trust w1);
                  paired =
                    (case dev_uuid device of
                       None \<Rightarrow> Some w1
                     | Some u \<Rightarrow>
                         if host_id \<noteq> None \<and> \<not> userpref_has_device_public_key u (trust w1)
                         then map_option snd (lockdownd_pair client1 host_id w1)
                         else Some w1)
              in case paired of
                   None \<Rightarrow> None
                 | Some w2 \<Rightarrow>
                     (case lockdownd_validate_pair client1 host_id w2 of
                        None \<Rightarrow> None
                      | Some (ret, w3) \<Rightarrow>
                          if ret = LOCKDOWN_E_SUCCESS then
                            (case lockdownd_start_session client1 host_id w3 of
                               None \<Rightarrow> None
                             | Some (sret, client2, w4) \<Rightarrow>
                                 if sret = LOCKDOWN_E_SUCCESS
                                 then Some (LOCKDOWN_E_SUCCESS, Some client2, w4)
                                 else (let (r, w5) = lockdownd_client_free client2 w4
                                       in Some (LOCKDOWN_E_SSL_ERROR, None, w5)))
                          else (let (r, w4) = lockdownd_client_free client1 w3
                                in Some (ret, None, w4))))))"

section \<open>Services and activation\<close>

text \<open>
  \<^verbatim>\<open>lockdownd_start_service\<close> (lines 1337--1399), called with a place for the port.
  The 64-bit \<^verbatim>\<open>Port\<close> is stored in a \<^verbatim>\<open>uint32_t\<close> and then in the caller's
  \<^verbatim>\<open>int\<close>: the port handed out is the low 32 bits read as two's complement.
\<close>

definition lockdownd_start_service ::
    "lockdownd_client \<Rightarrow> string option \<Rightarrow> world \<Rightarrow> lockdownd_error \<times> int option \<times> world" where
  "lockdownd_start_service client service w =
     (case service of
        None \<Rightarrow> (LOCKDOWN_E_INVALID_ARG, None, w)
      | Some svc \<Rightarrow>
          if userpref_get_host_id (trust w) = None then (LOCKDOWN_E_INVALID_CONF, None, w)
          else if session_id client = None then (LOCKDOWN_E_NO_RUNNING_SESSION, None, w)
          else
            (let dict = plist_dict_add_label plist_new_dict (label client);
                 dict = plist_dict_insert_item dict ''Request'' (PLIST_STRING ''StartService'');
                 dict = plist_dict_insert_item dict ''Service'' (PLIST_STRING svc);
                 (ret, w1) = lockdownd_send client dict w
             in if ret \<noteq> LOCKDOWN_E_SUCCESS then (ret, None, w1)
                else
                  (let (ret, dict, w2) = lockdownd_recv client w1 in
                   if ret \<noteq> LOCKDOWN_E_SUCCESS then (ret, None, w2)
                   else if dict = None then (LOCKDOWN_E_PLIST_ERROR, None, w2)
                   else if lockdown_check_result dict ''StartService'' = RESULT_SUCCESS then
                     (case plist_dict_get_item dict ''Port'' of
                        Some (PLIST_UINT port_value) \<Rightarrow>
                          if port_value \<noteq> 0
                          then (LOCKDOWN_E_SUCCESS, Some (sint (ucast port_value :: 32 word)), w2)
                          else (LOCKDOWN_E_UNKNOWN_ERROR, None, w2)
                      | _ \<Rightarrow> (LOCKDOWN_E_UNKNOWN_ERROR, None, w2))
                   else (LOCKDOWN_E_START_SERVICE_FAILED, None, w2))))"

text \<open>\<^verbatim>\<open>lockdownd_activate\<close> (lines 1413--1450).\<close>

definition lockdownd_activate :: "lockdownd_client \<Rightarrow> plist_t \<Rightarrow> world \<Rightarrow> lockdownd_error \<times> world" where
  "lockdownd_activate client activation_record w =
     (if session_id client = None then (LOCKDOWN_E_NO_RUNNING_SESSION, w)
      else
        (case activation_record of
           None \<Rightarrow> (LOCKDOWN_E_INVALID_ARG, w)
         | Some record \<Rightarrow>
             (let dict = plist_dict_add_label plist_new_dict (label client);
                  dict = plist_dict_insert_item dict ''Request'' (PLIST_STRING ''Activate'');
                  dict = plist_dict_insert_item dict ''ActivationRecord'' record;
                  (ret, w1) = lockdownd_send client dict w;
                  (ret, dict, w2) = lockdownd_recv client w1
              in if dict = None then (LOCKDOWN_E_PLIST_ERROR, w2)
                 else if lockdown_check_result dict ''Activate'' = RESULT_SUCCESS
                      then (LOCKDOWN_E_SUCCESS, w2)
                      else (LOCKDOWN_E_ACTIVATION_FAILED, w2))))"

text \<open>\<^verbatim>\<open>lockdownd_deactivate\<close> (lines 1460--1493).\<close>

definition lockdownd_deactivate :: "lockdownd_client \<Rightarrow> world \<Rightarrow> lockdownd_error \<times> world" where
  "lockdownd_deactivate client w =
     (if session_id client = None then (LOCKDOWN_E_NO_RUNNING_SESSION, w)
      else
        (let dict = plist_dict_add_label plist_new_dict (label client);
             dict = plist_dict_insert_item dict ''Request'' (PLIST_STRING ''Deactivate'');
             (ret, w1) = lockdownd_send client dict w;
             (ret, dict, w2) = lockdownd_recv client w1
         in if dict = None then (LOCKDOWN_E_PLIST_ERROR, w2)
            else if lockdown_check_result dict ''Deactivate'' = RESULT_SUCCESS
                 then (LOCKDOWN_E_SUCCESS, w2)
                 else (LOCKDOWN_E_UNKNOWN_ERROR, w2)))"

section \<open>Example inputs\<close>

text \<open>A configured trust store that knows no device yet, a crypto library that decodes
  every key but \<^verbatim>\<open>NOT-PEM\<close>, and a device whose replies are given.\<close>

definition ex_trust :: userpref where
  "ex_trust = \<lparr>up_host_id = Some ''HOST-0001'', up_device_keys = Map.empty,
                up_keys_and_certs = USERPREF_E_SUCCESS,
                up_certs_as_pem = (USERPREF_E_SUCCESS, ''ROOT-PEM'', ''HOST-PEM'')\<rparr>"

definition ex_crypto :: crypto_lib where
  "ex_crypto = \<lparr>pem_base64_decode = (\<lambda>key. if key = ''NOT-PEM'' then None else Some ''DER''),
                 rsa_public_key_decode = (\<lambda>der. Some (''modulus'', ''exponent'')),
                 privkey_import_rsa_raw = (\<lambda>modulus exponent. True),
                 sign_device_cert = (\<lambda>modulus exponent. ''DEVICE-PEM'')\<rparr>"

definition ex_world :: "userpref \<Rightarrow> (bool \<times> plist_t) list \<Rightarrow> world" where
  "ex_world up rs = \<lparr>trust = up, crypto = ex_crypto, wire = [],
                     sends = [True, True, True, True, True, True, True, True],
                     replies = rs, handshakes = [], client_allocated = True,
                     service_free_ok = True\<rparr>"

definition ex_device :: iphone_device where
  "ex_device = \<lparr>dev_connects = True, dev_uuid = Some ''1111-2222''\<rparr>"

text \<open>A client as the handshake leaves it before pairing, and one inside a session,
  without and with TLS.\<close>

definition ex_client :: lockdownd_client where
  "ex_client = \<lparr>ssl_enabled = False, session_id = None, uuid = Some ''1111-2222'', label = None\<rparr>"

definition ex_session_client :: lockdownd_client where
  "ex_session_client = ex_client\<lparr>session_id := Some ''S1''\<rparr>"

definition ex_tls_client :: lockdownd_client where
  "ex_tls_client = ex_client\<lparr>session_id := Some ''S1'', ssl_enabled := True\<rparr>"

text \<open>Replies of the device: the echo of a verb with a result, the same with an error
  string, and the answer to the query for the device public key.\<close>

definition ex_reply :: "string \<Rightarrow> string \<Rightarrow> plist" where
  "ex_reply verb result = PLIST_DICT [(''Request'', PLIST_STRING verb), (''Result'', PLIST_STRING result)]"

definition ex_failure :: "string \<Rightarrow> string \<Rightarrow> plist" where
  "ex_failure verb err =
     PLIST_DICT [(''Request'', PLIST_STRING verb), (''Result'', PLIST_STRING ''Failure''),
                 (''Error'', PLIST_STRING err)]"

definition ex_public_key_reply :: plist where
  "ex_public_key_reply =
     PLIST_DICT [(''Request'', PLIST_STRING ''GetValue''), (''Result'', PLIST_STRING ''Success''),
                 (''Key'', PLIST_STRING ''DevicePublicKey''), (''Value'', PLIST_DATA ''DEVICE-KEY'')]"

lemmas ex_defs = ex_trust_def ex_crypto_def ex_world_def ex_device_def ex_client_def
  ex_session_client_def ex_tls_client_def ex_reply_def ex_failure_def ex_public_key_reply_def

lemmas io_defs = lockdownd_send_def lockdownd_recv_def property_list_service_send_def
  property_list_service_receive_def plist_dict_add_label_def plist_new_dict_def
  lockdown_check_result_def RESULT_SUCCESS_def RESULT_FAILURE_def Let_def

section \<open>What a send and a receive do\<close>

lemma check_result_cases:
  "lockdown_check_result dict verb =
     (if plist_dict_get_item dict ''Request'' = Some (PLIST_STRING verb)
         \<and> plist_dict_get_item dict ''Result'' = Some (PLIST_STRING ''Success'') then RESULT_SUCCESS
      else if plist_dict_get_item dict ''Request'' = Some (PLIST_STRING verb)
         \<and> plist_dict_get_item dict ''Result'' = Some (PLIST_STRING ''Failure'') then RESULT_FAILURE
      else - 1)"
  by (auto simp: lockdown_check_result_def RESULT_SUCCESS_def RESULT_FAILURE_def Let_def
           split: option.splits plist.splits)

lemma send_effect:
  "lockdownd_send c p w = (ret, w') \<Longrightarrow>
     w' = w\<lparr>wire := wire w @ [Sent (ssl_enabled c) p], sends := tl (sends w)\<rparr>"
  by (auto simp: lockdownd_send_def property_list_service_send_def split: list.splits if_splits)

lemma send_ok:
  "sends w = True # ss \<Longrightarrow>
     lockdownd_send c p w =
       (LOCKDOWN_E_SUCCESS, w\<lparr>wire := wire w @ [Sent (ssl_enabled c) p], sends := ss\<rparr>)"
  by (simp add: lockdownd_send_def property_list_service_send_def)

lemma recv_some:
  "replies w = (ok, Some r) # rs \<Longrightarrow>
     lockdownd_recv c w =
       (if ok then LOCKDOWN_E_SUCCESS
        else if ssl_enabled c then LOCKDOWN_E_SSL_ERROR else LOCKDOWN_E_UNKNOWN_ERROR,
        Some r, w\<lparr>wire := wire w @ [Received r], replies := rs\<rparr>)"
  by (simp add: lockdownd_recv_def property_list_service_receive_def)

lemma recv_none:
  "replies w = [] \<or> (\<exists>ok rs. replies w = (ok, None) # rs) \<Longrightarrow>
     \<exists>ret. lockdownd_recv c w = (ret, None, w\<lparr>replies := tl (replies w)\<rparr>)"
  by (auto simp: lockdownd_recv_def property_list_service_receive_def)

lemma recv_effect:
  "lockdownd_recv c w = (ret, dict, w') \<Longrightarrow>
     trust w' = trust w \<and> crypto w' = crypto w \<and> sends w' = sends w
     \<and> handshakes w' = handshakes w
     \<and> client_allocated w' = client_allocated w \<and> service_free_ok w' = service_free_ok w
     \<and> wire w' = wire w @ (case dict of None \<Rightarrow> [] | Some d \<Rightarrow> [Received d])
     \<and> (ret = LOCKDOWN_E_SUCCESS \<longrightarrow> dict \<noteq> None)"
  by (auto simp: lockdownd_recv_def property_list_service_receive_def
           split: list.splits if_splits prod.splits option.splits)

lemma recv_replies:
  "lockdownd_recv c w = (ret, dict, w') \<Longrightarrow>
     (case dict of
        None \<Rightarrow> replies w = [] \<or> (\<exists>ok rs. replies w = (ok, None) # rs)
      | Some d \<Rightarrow> (\<exists>ok rs. replies w = (ok, Some d) # rs))
     \<and> (ret = LOCKDOWN_E_PLIST_ERROR \<longrightarrow> dict = None)
     \<and> (ret = LOCKDOWN_E_SUCCESS \<longrightarrow> dict \<noteq> None)"
  by (auto simp: lockdownd_recv_def property_list_service_receive_def
           split: list.splits if_splits prod.splits option.splits)

section \<open>What the operations make of a reply\<close>

lemma query_type_rejected:
  assumes "replies w = (True, Some r) # rs"
      and "lockdown_check_result (Some r) ''QueryType'' \<noteq> RESULT_SUCCESS"
  shows "fst (lockdownd_query_type c w) = LOCKDOWN_E_UNKNOWN_ERROR"
  using assms unfolding lockdownd_query_type_def
  by (auto simp: Let_def recv_some split: prod.splits dest!: send_effect)

lemma deactivate_rejected:
  assumes "replies w = (ok, Some r) # rs" and "session_id c \<noteq> None"
      and "lockdown_check_result (Some r) ''Deactivate'' \<noteq> RESULT_SUCCESS"
  shows "fst (lockdownd_deactivate c w) = LOCKDOWN_E_UNKNOWN_ERROR"
  using assms unfolding lockdownd_deactivate_def
  by (auto simp: Let_def recv_some split: prod.splits dest!: send_effect)

lemma activate_rejected:
  assumes "replies w = (ok, Some r) # rs" and "session_id c \<noteq> None"
      and "lockdown_check_result (Some r) ''Activate'' \<noteq> RESULT_SUCCESS"
  shows "fst (lockdownd_activate c (Some record) w) = LOCKDOWN_E_ACTIVATION_FAILED"
  using assms unfolding lockdownd_activate_def
  by (auto simp: Let_def recv_some split: prod.splits dest!: send_effect)

lemma stop_session_reply:
  assumes "replies w = (ok, Some r) # rs"
  shows "\<exists>req w'. lockdownd_stop_session c (Some s) w =
           (if lockdown_check_result (Some r) ''StopSession'' = RESULT_SUCCESS
            then LOCKDOWN_E_SUCCESS else LOCKDOWN_E_UNKNOWN_ERROR,
            c\<lparr>ssl_enabled := False, session_id := None\<rparr>, w')
         \<and> wire w' = wire w @ [Sent (ssl_enabled c) req, Received r]
                        @ (if ssl_enabled c then [TlsCloseNotify] else [])
         \<and> trust w' = trust w \<and> crypto w' = crypto w \<and> sends w' = tl (sends w) \<and> replies w' = rs
         \<and> handshakes w' = handshakes w"
  using assms unfolding lockdownd_stop_session_def
  by (auto simp: Let_def recv_some lockdownd_ssl_stop_session_def gnutls_bye_def
           split: prod.splits dest!: send_effect)

lemma stop_session_no_reply:
  assumes "replies w = [] \<or> (\<exists>ok rs. replies w = (ok, None) # rs)"
  shows "\<exists>req w'. lockdownd_stop_session c (Some s) w = (LOCKDOWN_E_PLIST_ERROR, c, w')
                 \<and> wire w' = wire w @ [Sent (ssl_enabled c) req]"
  using assms unfolding lockdownd_stop_session_def
  by (auto simp: Let_def lockdownd_recv_def property_list_service_receive_def
           split: prod.splits dest!: send_effect)

lemma start_service_reply:
  assumes "session_id c \<noteq> None" "userpref_get_host_id (trust w) \<noteq> None"
      and "sends w = True # ss" "replies w = (True, Some r) # rs"
  shows "\<exists>w'. lockdownd_start_service c (Some svc) w =
           (if lockdown_check_result (Some r) ''StartService'' = RESULT_SUCCESS then
              (case plist_dict_get_item (Some r) ''Port'' of
                 Some (PLIST_UINT p) \<Rightarrow>
                   if p \<noteq> 0 then (LOCKDOWN_E_SUCCESS, Some (sint (ucast p :: 32 word)), w')
                   else (LOCKDOWN_E_UNKNOWN_ERROR, None, w')
               | _ \<Rightarrow> (LOCKDOWN_E_UNKNOWN_ERROR, None, w'))
            else (LOCKDOWN_E_START_SERVICE_FAILED, None, w'))"
  using assms unfolding lockdownd_start_service_def
  by (simp add: send_ok recv_some Let_def split: option.splits plist.splits)

lemma query_type_plist_error:
  "fst (lockdownd_query_type c w) = LOCKDOWN_E_PLIST_ERROR \<Longrightarrow>
     replies w = [] \<or> (\<exists>ok rs. replies w = (ok, None) # rs)"
  unfolding lockdownd_query_type_def
  by (auto simp: Let_def split: prod.splits if_splits dest!: send_effect recv_replies)

lemma stop_session_plist_error:
  "fst (lockdownd_stop_session c sid w) = LOCKDOWN_E_PLIST_ERROR \<Longrightarrow>
     replies w = [] \<or> (\<exists>ok rs. replies w = (ok, None) # rs)"
  unfolding lockdownd_stop_session_def
  by (auto simp: Let_def lockdownd_ssl_stop_session_def
           split: option.splits prod.splits if_splits dest!: send_effect recv_replies)

lemma deactivate_plist_error:
  "fst (lockdownd_deactivate c w) = LOCKDOWN_E_PLIST_ERROR \<Longrightarrow>
     replies w = [] \<or> (\<exists>ok rs. replies w = (ok, None) # rs)"
  unfolding lockdownd_deactivate_def
  by (auto simp: Let_def split: prod.splits if_splits dest!: send_effect recv_replies)

lemma activate_plist_error:
  "fst (lockdownd_activate c activation_record w) = LOCKDOWN_E_PLIST_ERROR \<Longrightarrow>
     replies w = [] \<or> (\<exists>ok rs. replies w = (ok, None) # rs)"
  unfolding lockdownd_activate_def
  by (auto simp: Let_def split: option.splits prod.splits if_splits
           dest!: send_effect recv_replies)

lemma start_service_plist_error:
  "fst (lockdownd_start_service c service w) = LOCKDOWN_E_PLIST_ERROR \<Longrightarrow>
     replies w = [] \<or> (\<exists>ok rs. replies w = (ok, None) # rs)"
  unfolding lockdownd_start_service_def
  by (auto simp: Let_def lockdownd_send_def property_list_service_send_def
           split: option.splits prod.splits if_splits plist.splits list.splits
           dest!: recv_replies)

lemma port_fits:
  assumes "p < 2 ^ 31"
  shows "sint (ucast (p :: 64 word) :: 32 word) = uint p"
proof -
  from assms have lt: "uint p < 2 ^ 31"
    by (simp add: word_less_alt)
  have "(0::int) \<le> uint p" by simp
  moreover have "- (2 ^ 31) \<le> (0::int)" by simp
  ultimately have m: "- (2 ^ 31) \<le> uint p" by (rule order_trans [rotated])
  have u: "uint (ucast p :: 32 word) = uint p"
    using lt by (simp add: unsigned_ucast_eq take_bit_int_eq_self)
  have "sint (ucast p :: 32 word) = signed_take_bit 31 (uint (ucast p :: 32 word))"
    by (simp add: sint_uint)
  also have "\<dots> = uint p"
    unfolding u by (rule signed_take_bit_int_eq_self [OF m lt])
  finally show ?thesis .
qed

section \<open>What a pairing verb does\<close>



lemma get_device_public_key_ok:
  assumes "sends w = True # ss" and "replies w = (True, Some k) # rs"
  shows "lockdownd_get_device_public_key c w =
           (LOCKDOWN_E_SUCCESS, plist_get_data_val (plist_dict_get_item (Some k) ''Value''),
            w\<lparr>wire := wire w @ [Sent (ssl_enabled c)
                                   (get_value_request (label c) None (Some ''DevicePublicKey'')),
                                 Received k],
              sends := ss, replies := rs\<rparr>)"
  using assms
  by (simp add: lockdownd_get_device_public_key_def lockdownd_get_value_def send_ok recv_some Let_def)




lemma pair_failure_code_cases:
  "pair_failure_code dict LOCKDOWN_E_PAIRING_FAILED =
     (if plist_dict_get_item dict ''Error'' = Some (PLIST_STRING ''PasswordProtected'')
      then LOCKDOWN_E_PASSWORD_PROTECTED else LOCKDOWN_E_PAIRING_FAILED)"
  by (cases "plist_dict_get_item dict ''Error''" rule: plist_get_string_val.cases)
     (auto simp: pair_failure_code_def)





lemma do_pair_exchange:
  assumes "sends w = True # True # ss"
      and "replies w = (True, Some k) # (True, Some r) # rs"
      and "plist_dict_get_item (Some k) ''Value'' = Some (PLIST_DATA key)"
      and "lockdownd_gen_pair_cert (Some key) (crypto w) (trust w) = Some (LOCKDOWN_E_SUCCESS, dc, hc, rc)"
      and "(if host_id = None then userpref_get_host_id (trust w) else host_id) = Some h"
  shows "lockdownd_do_pair c host_id verb w =
           (let w' = w\<lparr>wire := wire w @ [Sent (ssl_enabled c)
                                           (get_value_request (label c) None (Some ''DevicePublicKey'')),
                                         Received k,
                                         Sent (ssl_enabled c) (pair_request (label c) dc hc h rc verb),
                                         Received r],
                       sends := ss, replies := rs\<rparr>
            in if lockdown_check_result (Some r) verb = RESULT_SUCCESS then
                 (case uuid c of
                    None \<Rightarrow> None
                  | Some u \<Rightarrow>
                      Some (LOCKDOWN_E_SUCCESS,
                            w'\<lparr>trust := (if verb = ''Unpair''
                                         then userpref_remove_device_public_key u (trust w)
                                         else userpref_set_device_public_key u key (trust w))\<rparr>))
               else Some (pair_failure_code (Some r) LOCKDOWN_E_PAIRING_FAILED, w'))"
proof (cases host_id)
  case None
  with assms show ?thesis
    unfolding lockdownd_do_pair_def
    by (simp add: get_device_public_key_ok [where ss = "True # ss" and rs = "(True, Some r) # rs"]
          send_ok recv_some Let_def split: option.splits)
next
  case (Some x)
  with assms show ?thesis
    unfolding lockdownd_do_pair_def
    by (simp add: get_device_public_key_ok [where ss = "True # ss" and rs = "(True, Some r) # rs"]
          send_ok recv_some Let_def split: option.splits)
qed

section \<open>What stopping, freeing and starting a session do\<close>

lemma stop_session_effect:
  "lockdownd_stop_session c sid w = (ret, c', w') \<Longrightarrow>
     trust w' = trust w \<and> crypto w' = crypto w \<and> handshakes w' = handshakes w
     \<and> label c' = label c \<and> uuid c' = uuid c \<and> (\<not> ssl_enabled c \<longrightarrow> \<not> ssl_enabled c')"
  unfolding lockdownd_stop_session_def
  by (auto simp: Let_def lockdownd_ssl_stop_session_def gnutls_bye_def
           split: option.splits prod.splits if_splits dest!: send_effect recv_effect)

lemma stop_running_session_effect:
  "stop_running_session c w = (c1, w1) \<Longrightarrow>
     trust w1 = trust w \<and> crypto w1 = crypto w \<and> handshakes w1 = handshakes w
     \<and> label c1 = label c \<and> uuid c1 = uuid c \<and> (\<not> ssl_enabled c \<longrightarrow> \<not> ssl_enabled c1)"
  unfolding stop_running_session_def
  by (auto split: if_splits prod.splits dest!: stop_session_effect)

lemma stop_running_session_none:
  "session_id c = None \<Longrightarrow> stop_running_session c w = (c, w)"
  by (simp add: stop_running_session_def)

lemma goodbye_effect:
  "lockdownd_goodbye c w = (ret, w') \<Longrightarrow> trust w' = trust w"
  unfolding lockdownd_goodbye_def
  by (auto simp: Let_def split: prod.splits if_splits dest!: send_effect recv_effect)

lemma client_free_effect:
  "lockdownd_client_free c w = (ret, w') \<Longrightarrow> trust w' = trust w \<and> \<not> client_allocated w'"
  unfolding lockdownd_client_free_def
  by (auto simp: Let_def split: prod.splits if_splits dest!: stop_session_effect goodbye_effect)

lemma start_session_exchange:
  assumes "stop_running_session c w = (c1, w1)"
      and "sends w1 = True # ss" and "replies w1 = (ok, Some r) # rs"
      and "lockdown_check_result (Some r) ''StartSession'' \<noteq> RESULT_FAILURE"
  shows "lockdownd_start_session c (Some h) w =
           (let req = plist_dict_insert_item
                        (plist_dict_insert_item (plist_dict_add_label plist_new_dict (label c1))
                           ''HostID'' (PLIST_STRING h))
                        ''Request'' (PLIST_STRING ''StartSession'');
                w3 = w1\<lparr>sends := ss,
                        wire := wire w1 @ [Sent (ssl_enabled c1) req, Received r],
                        replies := rs\<rparr>;
                use_ssl = (plist_dict_get_item (Some r) ''EnableSessionSSL'' = Some (PLIST_BOOLEAN True));
                client2 = (case plist_dict_get_item (Some r) ''SessionID'' of
                             Some (PLIST_STRING s) \<Rightarrow> c1\<lparr>session_id := Some s\<rparr>
                           | _ \<Rightarrow> c1)
            in if use_ssl then Some (lockdownd_ssl_start_session client2 w3)
               else Some (LOCKDOWN_E_SUCCESS, client2\<lparr>ssl_enabled := False\<rparr>, w3))"
proof -
  have b: "(case plist_dict_get_item (Some r) ''EnableSessionSSL'' of
              Some (PLIST_BOOLEAN b) \<Rightarrow> b | _ \<Rightarrow> False)
           = (plist_dict_get_item (Some r) ''EnableSessionSSL'' = Some (PLIST_BOOLEAN True))"
    by (auto split: option.splits plist.splits)
  show ?thesis
    using assms unfolding lockdownd_start_session_def
    by (simp add: send_ok recv_some Let_def b)
qed

lemma query_type_exchange:
  assumes "sends w = True # ss" and "replies w = (True, Some q) # rs"
  shows "lockdownd_query_type c w =
           (let req = plist_dict_insert_item (plist_dict_add_label plist_new_dict (label c))
                        ''Request'' (PLIST_STRING ''QueryType'');
                w' = w\<lparr>sends := ss, wire := wire w @ [Sent (ssl_enabled c) req, Received q],
                       replies := rs\<rparr>
            in if lockdown_check_result (Some q) ''QueryType'' = RESULT_SUCCESS
               then (LOCKDOWN_E_SUCCESS,
                     plist_get_string_val (plist_dict_get_item (Some q) ''Type''), w')
               else (LOCKDOWN_E_UNKNOWN_ERROR, None, w'))"
  using assms unfolding lockdownd_query_type_def
  by (simp add: send_ok recv_some Let_def)

section \<open>The request engine\<close>

text \<open>
  Claim C2, as amended. \<^verbatim>\<open>lockdown_check_result\<close> answers Success or Failure exactly
  when the response has a string \<^verbatim>\<open>Request\<close> equal to the sent verb and a string
  \<^verbatim>\<open>Result\<close> equal to \<^verbatim>\<open>Success\<close> or \<^verbatim>\<open>Failure\<close>; every other shape gives \<^verbatim>\<open>-1\<close>. A
  received response that is not a Success is not reported as a plist error: QueryType,
  StopSession and Deactivate return the unknown error, Activate returns the activation
  failure and StartService the start-service failure. These five operations return the
  plist error only when the receive stores no plist.
\<close>

theorem malformed_response_codes:
  "(replies w = (True, Some r) # rs \<longrightarrow>
      lockdown_check_result (Some r) verb =
           (if plist_dict_get_item (Some r) ''Request'' = Some (PLIST_STRING verb)
               \<and> plist_dict_get_item (Some r) ''Result'' = Some (PLIST_STRING ''Success'')
            then RESULT_SUCCESS
            else if plist_dict_get_item (Some r) ''Request'' = Some (PLIST_STRING verb)
               \<and> plist_dict_get_item (Some r) ''Result'' = Some (PLIST_STRING ''Failure'')
            then RESULT_FAILURE
            else - 1)
       \<and> (lockdown_check_result (Some r) ''QueryType'' \<noteq> RESULT_SUCCESS \<longrightarrow>
            fst (lockdownd_query_type c w) = LOCKDOWN_E_UNKNOWN_ERROR)
       \<and> (lockdown_check_result (Some r) ''StopSession'' \<noteq> RESULT_SUCCESS \<longrightarrow>
            fst (lockdownd_stop_session c (Some s) w) = LOCKDOWN_E_UNKNOWN_ERROR)
       \<and> (session_id c \<noteq> None \<and> lockdown_check_result (Some r) ''Deactivate'' \<noteq> RESULT_SUCCESS \<longrightarrow>
            fst (lockdownd_deactivate c w) = LOCKDOWN_E_UNKNOWN_ERROR)
       \<and> (session_id c \<noteq> None \<and> lockdown_check_result (Some r) ''Activate'' \<noteq> RESULT_SUCCESS \<longrightarrow>
            fst (lockdownd_activate c (Some arec) w) = LOCKDOWN_E_ACTIVATION_FAILED)
       \<and> (session_id c \<noteq> None \<and> userpref_get_host_id (trust w) \<noteq> None \<and> sends w = True # ss
            \<and> lockdown_check_result (Some r) ''StartService'' \<noteq> RESULT_SUCCESS \<longrightarrow>
            fst (lockdownd_start_service c (Some svc) w) = LOCKDOWN_E_START_SERVICE_FAILED))
   \<and> (fst (lockdownd_query_type c w) = LOCKDOWN_E_PLIST_ERROR
        \<or> fst (lockdownd_stop_session c sid w) = LOCKDOWN_E_PLIST_ERROR
        \<or> fst (lockdownd_deactivate c w) = LOCKDOWN_E_PLIST_ERROR
        \<or> fst (lockdownd_activate c activation_record w) = LOCKDOWN_E_PLIST_ERROR
        \<or> fst (lockdownd_start_service c service w) = LOCKDOWN_E_PLIST_ERROR \<longrightarrow>
       replies w = [] \<or> (\<exists>ok0 rs0. replies w = (ok0, None) # rs0))"
proof (rule conjI)
  have "lockdown_check_result (Some r) verb =
           (if plist_dict_get_item (Some r) ''Request'' = Some (PLIST_STRING verb)
               \<and> plist_dict_get_item (Some r) ''Result'' = Some (PLIST_STRING ''Success'')
            then RESULT_SUCCESS
            else if plist_dict_get_item (Some r) ''Request'' = Some (PLIST_STRING verb)
               \<and> plist_dict_get_item (Some r) ''Result'' = Some (PLIST_STRING ''Failure'')
            then RESULT_FAILURE
            else - 1)
       \<and> (lockdown_check_result (Some r) ''QueryType'' \<noteq> RESULT_SUCCESS \<longrightarrow>
            fst (lockdownd_query_type c w) = LOCKDOWN_E_UNKNOWN_ERROR)
       \<and> (lockdown_check_result (Some r) ''StopSession'' \<noteq> RESULT_SUCCESS \<longrightarrow>
            fst (lockdownd_stop_session c (Some s) w) = LOCKDOWN_E_UNKNOWN_ERROR)
       \<and> (session_id c \<noteq> None \<and> lockdown_check_result (Some r) ''Deactivate'' \<noteq> RESULT_SUCCESS \<longrightarrow>
            fst (lockdownd_deactivate c w) = LOCKDOWN_E_UNKNOWN_ERROR)
       \<and> (session_id c \<noteq> None \<and> lockdown_check_result (Some r) ''Activate'' \<noteq> RESULT_SUCCESS \<longrightarrow>
            fst (lockdownd_activate c (Some arec) w) = LOCKDOWN_E_ACTIVATION_FAILED)
       \<and> (session_id c \<noteq> None \<and> userpref_get_host_id (trust w) \<noteq> None \<and> sends w = True # ss
            \<and> lockdown_check_result (Some r) ''StartService'' \<noteq> RESULT_SUCCESS \<longrightarrow>
            fst (lockdownd_start_service c (Some svc) w) = LOCKDOWN_E_START_SERVICE_FAILED)"
    if h: "replies w = (True, Some r) # rs"
  proof (intro conjI impI)
    show "lockdown_check_result (Some r) verb =
             (if plist_dict_get_item (Some r) ''Request'' = Some (PLIST_STRING verb)
                 \<and> plist_dict_get_item (Some r) ''Result'' = Some (PLIST_STRING ''Success'')
              then RESULT_SUCCESS
              else if plist_dict_get_item (Some r) ''Request'' = Some (PLIST_STRING verb)
                 \<and> plist_dict_get_item (Some r) ''Result'' = Some (PLIST_STRING ''Failure'')
              then RESULT_FAILURE
              else - 1)"
      by (rule check_result_cases)
  next
    assume "lockdown_check_result (Some r) ''QueryType'' \<noteq> RESULT_SUCCESS"
    with h show "fst (lockdownd_query_type c w) = LOCKDOWN_E_UNKNOWN_ERROR"
      by (rule query_type_rejected)
  next
    assume a: "lockdown_check_result (Some r) ''StopSession'' \<noteq> RESULT_SUCCESS"
    from stop_session_reply [OF h, of c s] a
    show "fst (lockdownd_stop_session c (Some s) w) = LOCKDOWN_E_UNKNOWN_ERROR"
      by auto
  next
    assume "session_id c \<noteq> None \<and> lockdown_check_result (Some r) ''Deactivate'' \<noteq> RESULT_SUCCESS"
    with h show "fst (lockdownd_deactivate c w) = LOCKDOWN_E_UNKNOWN_ERROR"
      by (auto intro: deactivate_rejected)
  next
    assume "session_id c \<noteq> None \<and> lockdown_check_result (Some r) ''Activate'' \<noteq> RESULT_SUCCESS"
    with h show "fst (lockdownd_activate c (Some arec) w) = LOCKDOWN_E_ACTIVATION_FAILED"
      by (auto intro: activate_rejected)
  next
    assume a: "session_id c \<noteq> None \<and> userpref_get_host_id (trust w) \<noteq> None \<and> sends w = True # ss
              \<and> lockdown_check_result (Some r) ''StartService'' \<noteq> RESULT_SUCCESS"
    with start_service_reply [of c w ss r rs svc] h
    show "fst (lockdownd_start_service c (Some svc) w) = LOCKDOWN_E_START_SERVICE_FAILED"
      by auto
  qed
  then show "replies w = (True, Some r) # rs \<longrightarrow>
      lockdown_check_result (Some r) verb =
           (if plist_dict_get_item (Some r) ''Request'' = Some (PLIST_STRING verb)
               \<and> plist_dict_get_item (Some r) ''Result'' = Some (PLIST_STRING ''Success'')
            then RESULT_SUCCESS
            else if plist_dict_get_item (Some r) ''Request'' = Some (PLIST_STRING verb)
               \<and> plist_dict_get_item (Some r) ''Result'' = Some (PLIST_STRING ''Failure'')
            then RESULT_FAILURE
            else - 1)
       \<and> (lockdown_check_result (Some r) ''QueryType'' \<noteq> RESULT_SUCCESS \<longrightarrow>
            fst (lockdownd_query_type c w) = LOCKDOWN_E_UNKNOWN_ERROR)
       \<and> (lockdown_check_result (Some r) ''StopSession'' \<noteq> RESULT_SUCCESS \<longrightarrow>
            fst (lockdownd_stop_session c (Some s) w) = LOCKDOWN_E_UNKNOWN_ERROR)
       \<and> (session_id c \<noteq> None \<and> lockdown_check_result (Some r) ''Deactivate'' \<noteq> RESULT_SUCCESS \<longrightarrow>
            fst (lockdownd_deactivate c w) = LOCKDOWN_E_UNKNOWN_ERROR)
       \<and> (session_id c \<noteq> None \<and> lockdown_check_result (Some r) ''Activate'' \<noteq> RESULT_SUCCESS \<longrightarrow>
            fst (lockdownd_activate c (Some arec) w) = LOCKDOWN_E_ACTIVATION_FAILED)
       \<and> (session_id c \<noteq> None \<and> userpref_get_host_id (trust w) \<noteq> None \<and> sends w = True # ss
            \<and> lockdown_check_result (Some r) ''StartService'' \<noteq> RESULT_SUCCESS \<longrightarrow>
            fst (lockdownd_start_service c (Some svc) w) = LOCKDOWN_E_START_SERVICE_FAILED)"
    by (rule impI)
next
  show "fst (lockdownd_query_type c w) = LOCKDOWN_E_PLIST_ERROR
        \<or> fst (lockdownd_stop_session c sid w) = LOCKDOWN_E_PLIST_ERROR
        \<or> fst (lockdownd_deactivate c w) = LOCKDOWN_E_PLIST_ERROR
        \<or> fst (lockdownd_activate c activation_record w) = LOCKDOWN_E_PLIST_ERROR
        \<or> fst (lockdownd_start_service c service w) = LOCKDOWN_E_PLIST_ERROR \<longrightarrow>
       replies w = [] \<or> (\<exists>ok0 rs0. replies w = (ok0, None) # rs0)"
    using query_type_plist_error [of c w] stop_session_plist_error [of c sid w]
      deactivate_plist_error [of c w] activate_plist_error [of c activation_record w]
      start_service_plist_error [of c service w]
    by blast
qed

text \<open>Witness for C2: a response that echoes the verb but carries no \<^verbatim>\<open>Result\<close>, and a
  reply that does not parse.\<close>

theorem malformed_response_codes_witness:
  "replies (ex_world ex_trust [(True, Some (PLIST_DICT [(''Request'', PLIST_STRING ''Deactivate'')]))])
     = [(True, Some (PLIST_DICT [(''Request'', PLIST_STRING ''Deactivate'')]))]
   \<and> lockdown_check_result (Some (PLIST_DICT [(''Request'', PLIST_STRING ''Deactivate'')])) ''Deactivate'' = - 1
   \<and> fst (lockdownd_query_type ex_session_client
        (ex_world ex_trust [(True, Some (PLIST_DICT [(''Request'', PLIST_STRING ''Deactivate'')]))]))
       = LOCKDOWN_E_UNKNOWN_ERROR
   \<and> fst (lockdownd_stop_session ex_session_client (Some ''S1'')
        (ex_world ex_trust [(True, Some (PLIST_DICT [(''Request'', PLIST_STRING ''Deactivate'')]))]))
       = LOCKDOWN_E_UNKNOWN_ERROR
   \<and> fst (lockdownd_deactivate ex_session_client
        (ex_world ex_trust [(True, Some (PLIST_DICT [(''Request'', PLIST_STRING ''Deactivate'')]))]))
       = LOCKDOWN_E_UNKNOWN_ERROR
   \<and> fst (lockdownd_activate ex_session_client (Some (PLIST_DICT []))
        (ex_world ex_trust [(True, Some (PLIST_DICT [(''Request'', PLIST_STRING ''Deactivate'')]))]))
       = LOCKDOWN_E_ACTIVATION_FAILED
   \<and> fst (lockdownd_start_service ex_session_client (Some ''com.apple.afc'')
        (ex_world ex_trust [(True, Some (PLIST_DICT [(''Request'', PLIST_STRING ''Deactivate'')]))]))
       = LOCKDOWN_E_START_SERVICE_FAILED
   \<and> fst (lockdownd_deactivate ex_session_client (ex_world ex_trust [(False, None)]))
       = LOCKDOWN_E_PLIST_ERROR
   \<and> (replies (ex_world ex_trust [(False, None)]) = []
        \<or> (\<exists>ok0 rs0. replies (ex_world ex_trust [(False, None)]) = (ok0, None) # rs0))"
proof -
  let ?r = "PLIST_DICT [(''Request'', PLIST_STRING ''Deactivate'')]"
  let ?w = "ex_world ex_trust [(True, Some ?r)]"
  let ?wn = "ex_world ex_trust [(False, None)]"
  have h: "replies ?w = (True, Some ?r) # []" by (simp add: ex_world_def)
  have c: "\<And>verb. lockdown_check_result (Some ?r) verb \<noteq> RESULT_SUCCESS"
    by (simp add: check_result_cases RESULT_SUCCESS_def)
  have s: "session_id ex_session_client \<noteq> None"
          "userpref_get_host_id (trust ?w) \<noteq> None"
          "sends ?w = True # [True, True, True, True, True, True, True]"
    by (simp_all add: ex_defs userpref_get_host_id_def)
  have a: "lockdown_check_result (Some ?r) ''Deactivate'' = - 1
     \<and> fst (lockdownd_query_type ex_session_client ?w) = LOCKDOWN_E_UNKNOWN_ERROR
     \<and> fst (lockdownd_stop_session ex_session_client (Some ''S1'') ?w) = LOCKDOWN_E_UNKNOWN_ERROR
     \<and> fst (lockdownd_deactivate ex_session_client ?w) = LOCKDOWN_E_UNKNOWN_ERROR
     \<and> fst (lockdownd_activate ex_session_client (Some (PLIST_DICT [])) ?w)
         = LOCKDOWN_E_ACTIVATION_FAILED
     \<and> fst (lockdownd_start_service ex_session_client (Some ''com.apple.afc'') ?w)
         = LOCKDOWN_E_START_SERVICE_FAILED"
    using h c s
      malformed_response_codes [where w = ?w and r = ?r and rs = "[]" and verb = "''Deactivate''"
        and c = ex_session_client and s = "''S1''" and arec = "PLIST_DICT []"
        and ss = "[True, True, True, True, True, True, True]" and svc = "''com.apple.afc''",
        THEN conjunct1]
    by (simp add: check_result_cases)
  have p: "fst (lockdownd_deactivate ex_session_client ?wn) = LOCKDOWN_E_PLIST_ERROR"
    by (simp add: lockdownd_deactivate_def ex_defs io_defs)
  from malformed_response_codes [where w = ?wn and c = ex_session_client, THEN conjunct2] p
  have b: "replies ?wn = [] \<or> (\<exists>ok0 rs0. replies ?wn = (ok0, None) # rs0)"
    by blast
  from h a p b show ?thesis by simp
qed

text \<open>
  Counterexample to C2 as stated: Deactivate answers a response without \<^verbatim>\<open>Result\<close>
  with the unknown error, and GetValue answers a response that echoes another verb and
  reports Failure with success; neither returns the plist error.
\<close>

theorem malformed_response_counterexample:
  "fst (lockdownd_deactivate ex_session_client
        (ex_world ex_trust [(True, Some (PLIST_DICT [(''Request'', PLIST_STRING ''Deactivate'')]))]))
     = LOCKDOWN_E_UNKNOWN_ERROR
   \<and> LOCKDOWN_E_UNKNOWN_ERROR \<noteq> LOCKDOWN_E_PLIST_ERROR
   \<and> fst (lockdownd_get_value ex_client None (Some ''DevicePublicKey'')
        (ex_world ex_trust [(True, Some (ex_reply ''SetValue'' ''Failure''))]))
     = LOCKDOWN_E_SUCCESS
   \<and> LOCKDOWN_E_SUCCESS \<noteq> LOCKDOWN_E_PLIST_ERROR"
  by (simp add: lockdownd_deactivate_def lockdownd_get_value_def get_value_request_def ex_defs io_defs)

section \<open>Operations that need a session\<close>

text \<open>
  Claim C4, as amended. On a client without a session id, Activate and Deactivate
  return \<^verbatim>\<open>NoRunningSession\<close>; StartService returns it when a service name is given and
  the trust store has a host id, and otherwise the invalid-argument or the
  invalid-configuration error, which it checks first. In every case the environment is
  unchanged: nothing is put on the wire.
\<close>

theorem session_required_without_session:
  assumes "session_id client = None"
  shows "lockdownd_start_service client service w =
           (case service of
              None \<Rightarrow> LOCKDOWN_E_INVALID_ARG
            | Some svc \<Rightarrow> if userpref_get_host_id (trust w) = None then LOCKDOWN_E_INVALID_CONF
                          else LOCKDOWN_E_NO_RUNNING_SESSION, None, w)
         \<and> lockdownd_activate client activation_record w = (LOCKDOWN_E_NO_RUNNING_SESSION, w)
         \<and> lockdownd_deactivate client w = (LOCKDOWN_E_NO_RUNNING_SESSION, w)"
  using assms
  by (simp add: lockdownd_start_service_def lockdownd_activate_def lockdownd_deactivate_def
           split: option.splits)

text \<open>Witness for C4: the client before StartSession, with a configured trust store.\<close>

theorem session_required_without_session_witness:
  "session_id ex_client = None
   \<and> lockdownd_start_service ex_client (Some ''com.apple.afc'') (ex_world ex_trust [])
       = (LOCKDOWN_E_NO_RUNNING_SESSION, None, ex_world ex_trust [])
   \<and> lockdownd_activate ex_client (Some (PLIST_DICT [])) (ex_world ex_trust [])
       = (LOCKDOWN_E_NO_RUNNING_SESSION, ex_world ex_trust [])
   \<and> lockdownd_deactivate ex_client (ex_world ex_trust [])
       = (LOCKDOWN_E_NO_RUNNING_SESSION, ex_world ex_trust [])"
proof -
  have h: "session_id ex_client = None" by (simp add: ex_client_def)
  show ?thesis
    using h session_required_without_session [OF h, of "Some ''com.apple.afc''" "ex_world ex_trust []" "Some (PLIST_DICT [])"]
    by (simp add: userpref_get_host_id_def ex_world_def ex_trust_def)
qed

text \<open>Counterexample to C4 as stated: without a host id in the trust store, StartService
  on a client without a session returns the invalid-configuration error.\<close>

theorem start_service_without_host_id_counterexample:
  "session_id ex_client = None
   \<and> lockdownd_start_service ex_client (Some ''com.apple.afc'') (ex_world (ex_trust\<lparr>up_host_id := None\<rparr>) [])
       = (LOCKDOWN_E_INVALID_CONF, None, ex_world (ex_trust\<lparr>up_host_id := None\<rparr>) [])
   \<and> LOCKDOWN_E_INVALID_CONF \<noteq> LOCKDOWN_E_NO_RUNNING_SESSION"
  by (simp add: lockdownd_start_service_def userpref_get_host_id_def ex_defs)

section \<open>The label of a new client\<close>

text \<open>
  Claim C9 fails on the code: \<^verbatim>\<open>lockdownd_client_new\<close> called with the label
  \<^verbatim>\<open>test\<close> makes a client without a label, and the QueryType request this client
  sends carries no \<^verbatim>\<open>Label\<close>.
\<close>

theorem client_new_discards_label:
  "(case lockdownd_client_new ex_device (Some ''test'') (ex_world ex_trust []) of
      (ret, Some c, w') \<Rightarrow>
        ret = LOCKDOWN_E_SUCCESS \<and> label c = None
        \<and> wire (snd (snd (lockdownd_query_type c w')))
            = [Sent False (PLIST_DICT [(''Request'', PLIST_STRING ''QueryType'')])]
    | (ret, None, w') \<Rightarrow> False)"
  by (simp add: lockdownd_client_new_def lockdownd_query_type_def ex_defs io_defs)

section \<open>StartService\<close>

text \<open>
  Claim C5, as amended. In a session, with a host id in the trust store, after the
  request was sent and a response received: a Success carrying a non-zero unsigned
  \<^verbatim>\<open>Port\<close> makes the call succeed with the low 32 bits of the port, which is the port
  itself below \<^verbatim>\<open>2^31\<close>; a Success whose \<^verbatim>\<open>Port\<close> is zero, missing or not an unsigned
  integer gives the unknown error; every response that is not a Success, a Failure
  among them, gives \<^verbatim>\<open>StartServiceFailed\<close>.
\<close>

theorem start_service_port:
  assumes "session_id c \<noteq> None" and "userpref_get_host_id (trust w) \<noteq> None"
      and "sends w = True # ss" and "replies w = (True, Some r) # rs"
  shows "(lockdown_check_result (Some r) ''StartService'' = RESULT_SUCCESS
            \<and> plist_dict_get_item (Some r) ''Port'' = Some (PLIST_UINT p) \<and> p \<noteq> 0 \<longrightarrow>
          fst (lockdownd_start_service c (Some svc) w) = LOCKDOWN_E_SUCCESS
          \<and> fst (snd (lockdownd_start_service c (Some svc) w)) = Some (sint (ucast p :: 32 word))
          \<and> (p < 2 ^ 31 \<longrightarrow> fst (snd (lockdownd_start_service c (Some svc) w)) = Some (uint p)))
       \<and> (lockdown_check_result (Some r) ''StartService'' = RESULT_SUCCESS
            \<and> (\<forall>q. plist_dict_get_item (Some r) ''Port'' = Some (PLIST_UINT q) \<longrightarrow> q = 0) \<longrightarrow>
          fst (lockdownd_start_service c (Some svc) w) = LOCKDOWN_E_UNKNOWN_ERROR
          \<and> fst (snd (lockdownd_start_service c (Some svc) w)) = None)
       \<and> (lockdown_check_result (Some r) ''StartService'' \<noteq> RESULT_SUCCESS \<longrightarrow>
          fst (lockdownd_start_service c (Some svc) w) = LOCKDOWN_E_START_SERVICE_FAILED
          \<and> fst (snd (lockdownd_start_service c (Some svc) w)) = None)"
proof -
  from start_service_reply [OF assms, of svc] obtain w' where
    e: "lockdownd_start_service c (Some svc) w =
           (if lockdown_check_result (Some r) ''StartService'' = RESULT_SUCCESS then
              (case plist_dict_get_item (Some r) ''Port'' of
                 Some (PLIST_UINT p) \<Rightarrow>
                   if p \<noteq> 0 then (LOCKDOWN_E_SUCCESS, Some (sint (ucast p :: 32 word)), w')
                   else (LOCKDOWN_E_UNKNOWN_ERROR, None, w')
               | _ \<Rightarrow> (LOCKDOWN_E_UNKNOWN_ERROR, None, w'))
            else (LOCKDOWN_E_START_SERVICE_FAILED, None, w'))"
    by blast
  show ?thesis
    unfolding e by (auto simp: port_fits split: option.splits plist.splits)
qed

text \<open>Witness for C5: the port 4242, a Success without a port, and a Failure.\<close>

theorem start_service_port_witness:
  "fst (lockdownd_start_service ex_session_client (Some ''com.apple.afc'')
          (ex_world ex_trust [(True, Some (PLIST_DICT [(''Result'', PLIST_STRING ''Success''),
              (''Request'', PLIST_STRING ''StartService''), (''Port'', PLIST_UINT 4242)]))]))
     = LOCKDOWN_E_SUCCESS
   \<and> fst (snd (lockdownd_start_service ex_session_client (Some ''com.apple.afc'')
          (ex_world ex_trust [(True, Some (PLIST_DICT [(''Result'', PLIST_STRING ''Success''),
              (''Request'', PLIST_STRING ''StartService''), (''Port'', PLIST_UINT 4242)]))])))
     = Some 4242
   \<and> fst (lockdownd_start_service ex_session_client (Some ''com.apple.afc'')
          (ex_world ex_trust [(True, Some (ex_reply ''StartService'' ''Success''))]))
     = LOCKDOWN_E_UNKNOWN_ERROR
   \<and> fst (lockdownd_start_service ex_session_client (Some ''com.apple.afc'')
          (ex_world ex_trust [(True, Some (ex_reply ''StartService'' ''Failure''))]))
     = LOCKDOWN_E_START_SERVICE_FAILED"
proof -
  let ?ss = "[True, True, True, True, True, True, True]"
  let ?r1 = "PLIST_DICT [(''Result'', PLIST_STRING ''Success''),
              (''Request'', PLIST_STRING ''StartService''), (''Port'', PLIST_UINT 4242)]"
  let ?r2 = "ex_reply ''StartService'' ''Success''"
  let ?r3 = "ex_reply ''StartService'' ''Failure''"
  have c: "session_id ex_session_client \<noteq> None"
    by (simp add: ex_defs)
  have h: "\<And>rs. userpref_get_host_id (trust (ex_world ex_trust rs)) \<noteq> None"
    by (simp add: ex_defs userpref_get_host_id_def)
  have s: "\<And>rs. sends (ex_world ex_trust rs) = True # ?ss"
    by (simp add: ex_defs)
  have r: "\<And>r. replies (ex_world ex_trust [(True, Some r)]) = (True, Some r) # []"
    by (simp add: ex_defs)
  have p: "(4242 :: 64 word) \<noteq> 0" "(4242 :: 64 word) < 2 ^ 31" "uint (4242 :: 64 word) = 4242"
    by simp_all
  show ?thesis
    using p
      start_service_port [OF c h s r, of ?r1 4242 "''com.apple.afc''"]
      start_service_port [OF c h s r, of ?r2 0 "''com.apple.afc''"]
      start_service_port [OF c h s r, of ?r3 0 "''com.apple.afc''"]
    by (simp add: check_result_cases ex_reply_def RESULT_SUCCESS_def RESULT_FAILURE_def)
qed

text \<open>Counterexample to C5 as stated: a Success with the port 0, and one without a
  port, give the unknown error and not \<^verbatim>\<open>StartServiceFailed\<close>.\<close>

theorem start_service_zero_port_counterexample:
  "fst (lockdownd_start_service ex_session_client (Some ''com.apple.afc'')
          (ex_world ex_trust [(True, Some (PLIST_DICT [(''Request'', PLIST_STRING ''StartService''),
              (''Result'', PLIST_STRING ''Success''), (''Port'', PLIST_UINT 0)]))]))
     = LOCKDOWN_E_UNKNOWN_ERROR
   \<and> fst (lockdownd_start_service ex_session_client (Some ''com.apple.afc'')
          (ex_world ex_trust [(True, Some (ex_reply ''StartService'' ''Success''))]))
     = LOCKDOWN_E_UNKNOWN_ERROR
   \<and> LOCKDOWN_E_UNKNOWN_ERROR \<noteq> LOCKDOWN_E_START_SERVICE_FAILED"
  by (simp add: lockdownd_start_service_def userpref_get_host_id_def ex_defs io_defs)

section \<open>StopSession\<close>

text \<open>
  Claim C7, as amended. When \<^verbatim>\<open>lockdownd_stop_session\<close> receives a plist in answer to
  StopSession, whatever it says, the client ends with TLS disabled and no session id,
  and the close notify goes out exactly when TLS was enabled. When it receives no
  plist (no reply, or an empty or unparseable one), it returns the plist error at once:
  the client keeps its TLS flag and its session id, and nothing follows the request on
  the wire.
\<close>

theorem stop_session_teardown:
  "(replies w = (ok, Some r) # rs \<longrightarrow>
      (\<exists>ret req w'. lockdownd_stop_session c (Some s) w
                       = (ret, c\<lparr>ssl_enabled := False, session_id := None\<rparr>, w')
         \<and> wire w' = wire w @ [Sent (ssl_enabled c) req, Received r]
                        @ (if ssl_enabled c then [TlsCloseNotify] else [])))
   \<and> (replies w = [] \<or> (\<exists>ok rs. replies w = (ok, None) # rs) \<longrightarrow>
      (\<exists>req w'. lockdownd_stop_session c (Some s) w = (LOCKDOWN_E_PLIST_ERROR, c, w')
         \<and> wire w' = wire w @ [Sent (ssl_enabled c) req]))"
proof (intro conjI impI)
  assume "replies w = (ok, Some r) # rs"
  from stop_session_reply [OF this, of c s]
  show "\<exists>ret req w'. lockdownd_stop_session c (Some s) w
                       = (ret, c\<lparr>ssl_enabled := False, session_id := None\<rparr>, w')
         \<and> wire w' = wire w @ [Sent (ssl_enabled c) req, Received r]
                        @ (if ssl_enabled c then [TlsCloseNotify] else [])"
    by blast
next
  assume "replies w = [] \<or> (\<exists>ok rs. replies w = (ok, None) # rs)"
  then show "\<exists>req w'. lockdownd_stop_session c (Some s) w = (LOCKDOWN_E_PLIST_ERROR, c, w')
         \<and> wire w' = wire w @ [Sent (ssl_enabled c) req]"
    by (rule stop_session_no_reply)
qed

text \<open>Witness for C7: a TLS session stopped by a Failure reply, and by no plist.\<close>

theorem stop_session_teardown_witness:
  "(\<exists>ret w'. lockdownd_stop_session ex_tls_client (Some ''S1'')
                 (ex_world ex_trust [(True, Some (ex_reply ''StopSession'' ''Failure''))])
               = (ret, ex_client, w')
             \<and> last (wire w') = TlsCloseNotify)
   \<and> (\<exists>w'. lockdownd_stop_session ex_tls_client (Some ''S1'') (ex_world ex_trust [(False, None)])
               = (LOCKDOWN_E_PLIST_ERROR, ex_tls_client, w')
             \<and> length (wire w') = 1)"
proof -
  have r1: "replies (ex_world ex_trust [(True, Some (ex_reply ''StopSession'' ''Failure''))])
              = (True, Some (ex_reply ''StopSession'' ''Failure'')) # []"
    by (simp add: ex_defs)
  have r2: "replies (ex_world ex_trust [(False, None)]) = []
            \<or> (\<exists>ok rs. replies (ex_world ex_trust [(False, None)]) = (ok, None) # rs)"
    by (auto simp: ex_defs)
  have c: "ex_tls_client\<lparr>ssl_enabled := False, session_id := None\<rparr> = ex_client"
          "ssl_enabled ex_tls_client" "wire (ex_world ex_trust [(False, None)]) = []"
    by (simp_all add: ex_defs)
  from stop_session_teardown [of "ex_world ex_trust [(True, Some (ex_reply ''StopSession'' ''Failure''))]"
      True "ex_reply ''StopSession'' ''Failure''" "[]" ex_tls_client "''S1''"] r1
  have a: "\<exists>ret w'. lockdownd_stop_session ex_tls_client (Some ''S1'')
                 (ex_world ex_trust [(True, Some (ex_reply ''StopSession'' ''Failure''))])
               = (ret, ex_client, w')
             \<and> last (wire w') = TlsCloseNotify"
    by (auto simp: c)
  from stop_session_teardown [of "ex_world ex_trust [(False, None)]" True "PLIST_DICT []" "[]"
      ex_tls_client "''S1''"] r2
  have b: "\<exists>w'. lockdownd_stop_session ex_tls_client (Some ''S1'') (ex_world ex_trust [(False, None)])
               = (LOCKDOWN_E_PLIST_ERROR, ex_tls_client, w')
             \<and> length (wire w') = 1"
    by (auto simp: c)
  from a b show ?thesis by blast
qed

text \<open>Counterexample to C7 as stated: after an unparseable reply the client still has
  TLS enabled and its session id, and no close notify was sent.\<close>

theorem stop_session_unparseable_reply_counterexample:
  "(case lockdownd_stop_session ex_tls_client (Some ''S1'') (ex_world ex_trust [(False, None)]) of
      (ret, c', w') \<Rightarrow>
        ret = LOCKDOWN_E_PLIST_ERROR \<and> ssl_enabled c' \<and> session_id c' = Some ''S1''
        \<and> TlsCloseNotify \<notin> set (wire w'))"
  by (simp add: lockdownd_stop_session_def ex_defs io_defs)

section \<open>Pair, ValidatePair and Unpair\<close>



text \<open>
  Claim C3, as amended. When a pairing verb receives a response that is not a Success
  (a Failure among them), the call returns \<^verbatim>\<open>PasswordProtected\<close> if the response's
  \<^verbatim>\<open>Error\<close> is the string \<^verbatim>\<open>PasswordProtected\<close> and \<^verbatim>\<open>PairingFailed\<close> otherwise,
  also when the error is \<^verbatim>\<open>InvalidHostID\<close>; the trust store is unchanged.
\<close>

theorem pairing_failure_code:
  assumes "sends w = True # True # ss"
      and "replies w = (True, Some k) # (True, Some r) # rs"
      and "plist_dict_get_item (Some k) ''Value'' = Some (PLIST_DATA key)"
      and "map_option fst (lockdownd_gen_pair_cert (Some key) (crypto w) (trust w)) = Some LOCKDOWN_E_SUCCESS"
      and "host_id \<noteq> None \<or> userpref_get_host_id (trust w) \<noteq> None"
      and "lockdown_check_result (Some r) verb \<noteq> RESULT_SUCCESS"
  shows "\<exists>w'. lockdownd_do_pair c host_id verb w =
                Some (if plist_dict_get_item (Some r) ''Error'' = Some (PLIST_STRING ''PasswordProtected'')
                      then LOCKDOWN_E_PASSWORD_PROTECTED else LOCKDOWN_E_PAIRING_FAILED, w')
              \<and> trust w' = trust w"
proof -
  from assms(4) obtain dc hc rc where
    g: "lockdownd_gen_pair_cert (Some key) (crypto w) (trust w) = Some (LOCKDOWN_E_SUCCESS, dc, hc, rc)"
    by (cases "lockdownd_gen_pair_cert (Some key) (crypto w) (trust w)") auto
  from assms(5) obtain h where
    h: "(if host_id = None then userpref_get_host_id (trust w) else host_id) = Some h"
    by (cases host_id) auto
  show ?thesis
    using assms(6)
    by (simp add: do_pair_exchange [OF assms(1-3) g h] pair_failure_code_cases Let_def)
qed

text \<open>Witness for C3: a Pair refused with \<^verbatim>\<open>PasswordProtected\<close> and an Unpair refused
  with \<^verbatim>\<open>InvalidHostID\<close>.\<close>

theorem pairing_failure_code_witness:
  "(\<exists>w'. lockdownd_do_pair ex_client None ''Pair''
             (ex_world ex_trust [(True, Some ex_public_key_reply),
                                 (True, Some (ex_failure ''Pair'' ''PasswordProtected''))])
           = Some (LOCKDOWN_E_PASSWORD_PROTECTED, w'))
   \<and> (\<exists>w'. lockdownd_do_pair ex_client None ''Unpair''
             (ex_world ex_trust [(True, Some ex_public_key_reply),
                                 (True, Some (ex_failure ''Unpair'' ''InvalidHostID''))])
           = Some (LOCKDOWN_E_PAIRING_FAILED, w'))"
proof -
  let ?ss = "[True, True, True, True, True, True]"
  let ?r1 = "ex_failure ''Pair'' ''PasswordProtected''"
  let ?r2 = "ex_failure ''Unpair'' ''InvalidHostID''"
  let ?w1 = "ex_world ex_trust [(True, Some ex_public_key_reply), (True, Some ?r1)]"
  let ?w2 = "ex_world ex_trust [(True, Some ex_public_key_reply), (True, Some ?r2)]"
  have s: "sends ?w1 = True # True # ?ss" "sends ?w2 = True # True # ?ss"
    by (simp_all add: ex_defs)
  have r: "replies ?w1 = (True, Some ex_public_key_reply) # (True, Some ?r1) # []"
          "replies ?w2 = (True, Some ex_public_key_reply) # (True, Some ?r2) # []"
    by (simp_all add: ex_defs)
  have k: "plist_dict_get_item (Some ex_public_key_reply) ''Value'' = Some (PLIST_DATA ''DEVICE-KEY'')"
    by (simp add: ex_defs)
  have g: "map_option fst (lockdownd_gen_pair_cert (Some ''DEVICE-KEY'') (crypto ?w1) (trust ?w1)) = Some LOCKDOWN_E_SUCCESS"
          "map_option fst (lockdownd_gen_pair_cert (Some ''DEVICE-KEY'') (crypto ?w2) (trust ?w2)) = Some LOCKDOWN_E_SUCCESS"
    by (simp_all add: lockdownd_gen_pair_cert_def ex_defs)
  have h: "None \<noteq> (None :: string option) \<or> userpref_get_host_id (trust ?w1) \<noteq> None"
          "None \<noteq> (None :: string option) \<or> userpref_get_host_id (trust ?w2) \<noteq> None"
    by (simp_all add: userpref_get_host_id_def ex_defs)
  have c: "lockdown_check_result (Some ?r1) ''Pair'' \<noteq> RESULT_SUCCESS"
          "lockdown_check_result (Some ?r2) ''Unpair'' \<noteq> RESULT_SUCCESS"
    by (simp_all add: check_result_cases ex_defs RESULT_SUCCESS_def RESULT_FAILURE_def)
  from pairing_failure_code [OF s(1) r(1) k g(1) h(1) c(1), where c = ex_client]
       pairing_failure_code [OF s(2) r(2) k g(2) h(2) c(2), where c = ex_client]
  show ?thesis
    by (auto simp: ex_failure_def)
qed

text \<open>Counterexample to C3 as stated: a Pair answered with Failure and the error
  \<^verbatim>\<open>InvalidHostID\<close> returns \<^verbatim>\<open>PairingFailed\<close>, not \<^verbatim>\<open>InvalidHostId\<close>.\<close>

theorem pairing_invalid_host_id_counterexample:
  "map_option fst
     (lockdownd_do_pair ex_client None ''Pair''
        (ex_world ex_trust [(True, Some ex_public_key_reply),
                            (True, Some (ex_failure ''Pair'' ''InvalidHostID''))]))
     = Some LOCKDOWN_E_PAIRING_FAILED
   \<and> LOCKDOWN_E_PAIRING_FAILED \<noteq> LOCKDOWN_E_INVALID_HOST_ID"
  by (simp add: lockdownd_do_pair_def lockdownd_get_device_public_key_def lockdownd_get_value_def
        get_value_request_def lockdownd_gen_pair_cert_def pair_request_def pair_failure_code_def
        userpref_get_host_id_def ex_defs io_defs)

section \<open>StartSession\<close>

text \<open>
  Claim C6. \<^verbatim>\<open>lockdownd_start_session\<close> first stops a running session. If the
  request is then sent and the response is not a Failure, carries a string
  \<^verbatim>\<open>SessionID\<close> and asks for SSL, and the TLS handshake fails, the call returns the SSL
  error, the client holds the session id, and the failed handshake leaves the TLS flag
  as it was when the request went out: TLS is still disabled whenever it was disabled
  at the call.
\<close>

theorem start_session_tls_failure:
  assumes "stop_running_session c w = (c1, w1)"
      and "sends w1 = True # ss"
      and "replies w1 = (ok, Some r) # rs"
      and "lockdown_check_result (Some r) ''StartSession'' \<noteq> RESULT_FAILURE"
      and "plist_dict_get_item (Some r) ''SessionID'' = Some (PLIST_STRING sid)"
      and "plist_dict_get_item (Some r) ''EnableSessionSSL'' = Some (PLIST_BOOLEAN True)"
      and "\<forall>hs. handshakes w1 \<noteq> True # hs"
  shows "\<exists>c' w'. lockdownd_start_session c (Some h) w = Some (LOCKDOWN_E_SSL_ERROR, c', w')
                 \<and> session_id c' = Some sid
                 \<and> ssl_enabled c' = ssl_enabled c1
                 \<and> (\<not> ssl_enabled c \<longrightarrow> \<not> ssl_enabled c')
                 \<and> last (wire w') = TlsHandshake"
proof -
  from start_session_exchange [OF assms(1) assms(2) assms(3) assms(4), of h]
  obtain req where
    e: "lockdownd_start_session c (Some h) w =
          Some (lockdownd_ssl_start_session (c1\<lparr>session_id := Some sid\<rparr>)
                  (w1\<lparr>sends := ss,
                      wire := wire w1 @ [Sent (ssl_enabled c1) req, Received r],
                      replies := rs\<rparr>))"
    by (simp add: assms(5) assms(6) Let_def)
  from assms(7) have "handshakes w1 = [] \<or> (\<exists>hs. handshakes w1 = False # hs)"
    by (cases "handshakes w1") auto
  moreover from stop_running_session_effect [OF assms(1)]
  have "\<not> ssl_enabled c \<longrightarrow> \<not> ssl_enabled c1"
    by simp
  ultimately show ?thesis
    unfolding e
    by (auto simp: lockdownd_ssl_start_session_def gnutls_handshake_def)
qed

text \<open>Witness for C6: a fresh client, the session \<^verbatim>\<open>S1\<close> with SSL requested, and a
  handshake that fails.\<close>

theorem start_session_tls_failure_witness:
  "\<exists>c' w'. lockdownd_start_session ex_client (Some ''HOST-0001'')
               ((ex_world ex_trust
                   [(True, Some (PLIST_DICT [(''Request'', PLIST_STRING ''StartSession''),
                                             (''Result'', PLIST_STRING ''Success''),
                                             (''SessionID'', PLIST_STRING ''S1''),
                                             (''EnableSessionSSL'', PLIST_BOOLEAN True)]))])
                  \<lparr>handshakes := [False]\<rparr>)
             = Some (LOCKDOWN_E_SSL_ERROR, c', w')
           \<and> session_id c' = Some ''S1'' \<and> \<not> ssl_enabled c'"
proof -
  let ?r = "PLIST_DICT [(''Request'', PLIST_STRING ''StartSession''),
                        (''Result'', PLIST_STRING ''Success''),
                        (''SessionID'', PLIST_STRING ''S1''),
                        (''EnableSessionSSL'', PLIST_BOOLEAN True)]"
  let ?w = "(ex_world ex_trust [(True, Some ?r)])\<lparr>handshakes := [False]\<rparr>"
  have 1: "stop_running_session ex_client ?w = (ex_client, ?w)"
    by (simp add: stop_running_session_def ex_client_def)
  have 2: "\<not> ssl_enabled ex_client" by (simp add: ex_client_def)
  have 3: "sends ?w = True # [True, True, True, True, True, True, True]"
    by (simp add: ex_world_def)
  have 4: "replies ?w = (True, Some ?r) # []" by (simp add: ex_world_def)
  have 5: "lockdown_check_result (Some ?r) ''StartSession'' \<noteq> RESULT_FAILURE"
    by (simp add: check_result_cases RESULT_SUCCESS_def RESULT_FAILURE_def)
  have 6: "plist_dict_get_item (Some ?r) ''SessionID'' = Some (PLIST_STRING ''S1'')" by simp
  have 7: "plist_dict_get_item (Some ?r) ''EnableSessionSSL'' = Some (PLIST_BOOLEAN True)" by simp
  have 8: "\<forall>hs. handshakes ?w \<noteq> True # hs" by simp
  from start_session_tls_failure [OF 1 3 4 5 6 7 8, of "''HOST-0001''"] 2
  show ?thesis by blast
qed

text \<open>
  Claim C10, as amended. Let the client have no session id once a running session has
  been stopped. If the StartSession request is sent and the response is not a Failure,
  has no string \<^verbatim>\<open>SessionID\<close> and does not ask for SSL, the call returns success and
  the client still has no session id; Activate and Deactivate on that client then
  return \<^verbatim>\<open>NoRunningSession\<close>, and StartService returns it when a service name is given
  and the trust store has a host id, and the invalid-argument or
  invalid-configuration error otherwise.
\<close>

theorem start_session_without_session_id:
  assumes "stop_running_session c w = (c1, w1)"
      and "session_id c1 = None"
      and "sends w1 = True # ss"
      and "replies w1 = (ok, Some r) # rs"
      and "lockdown_check_result (Some r) ''StartSession'' \<noteq> RESULT_FAILURE"
      and "\<forall>s. plist_dict_get_item (Some r) ''SessionID'' \<noteq> Some (PLIST_STRING s)"
      and "plist_dict_get_item (Some r) ''EnableSessionSSL'' \<noteq> Some (PLIST_BOOLEAN True)"
  shows "\<exists>c' w'. lockdownd_start_session c (Some h) w = Some (LOCKDOWN_E_SUCCESS, c', w')
                 \<and> session_id c' = None
                 \<and> lockdownd_activate c' activation_record w' = (LOCKDOWN_E_NO_RUNNING_SESSION, w')
                 \<and> lockdownd_deactivate c' w' = (LOCKDOWN_E_NO_RUNNING_SESSION, w')
                 \<and> lockdownd_start_service c' service w' =
                     (case service of
                        None \<Rightarrow> LOCKDOWN_E_INVALID_ARG
                      | Some svc \<Rightarrow> if userpref_get_host_id (trust w) = None
                                    then LOCKDOWN_E_INVALID_CONF
                                    else LOCKDOWN_E_NO_RUNNING_SESSION, None, w')"
proof -
  have n: "(case plist_dict_get_item (Some r) ''SessionID'' of
              Some (PLIST_STRING s) \<Rightarrow> c1\<lparr>session_id := Some s\<rparr>
            | _ \<Rightarrow> c1) = c1"
    using assms(6) by (auto split: option.splits plist.splits)
  from start_session_exchange [OF assms(1) assms(3) assms(4) assms(5), of h]
  obtain req where
    e: "lockdownd_start_session c (Some h) w =
          Some (LOCKDOWN_E_SUCCESS, c1\<lparr>ssl_enabled := False\<rparr>,
                w1\<lparr>sends := ss,
                    wire := wire w1 @ [Sent (ssl_enabled c1) req, Received r],
                    replies := rs\<rparr>)"
    by (simp add: assms(7) n Let_def)
  from stop_running_session_effect [OF assms(1)] have t: "trust w1 = trust w" by simp
  show ?thesis
    unfolding e using assms(2) t
    by (simp add: lockdownd_activate_def lockdownd_deactivate_def lockdownd_start_service_def
          split: option.splits)
qed

text \<open>Witness for C10: a fresh client and a bare Success.\<close>

theorem start_session_without_session_id_witness:
  "\<exists>c' w'. lockdownd_start_session ex_client (Some ''HOST-0001'')
               (ex_world ex_trust [(True, Some (ex_reply ''StartSession'' ''Success''))])
             = Some (LOCKDOWN_E_SUCCESS, c', w')
           \<and> session_id c' = None
           \<and> lockdownd_activate c' (Some (PLIST_DICT [])) w' = (LOCKDOWN_E_NO_RUNNING_SESSION, w')
           \<and> lockdownd_deactivate c' w' = (LOCKDOWN_E_NO_RUNNING_SESSION, w')
           \<and> lockdownd_start_service c' (Some ''com.apple.afc'') w'
               = (LOCKDOWN_E_NO_RUNNING_SESSION, None, w')"
proof -
  let ?r = "ex_reply ''StartSession'' ''Success''"
  let ?w = "ex_world ex_trust [(True, Some ?r)]"
  have 1: "stop_running_session ex_client ?w = (ex_client, ?w)"
    by (simp add: stop_running_session_def ex_client_def)
  have 2: "session_id ex_client = None" by (simp add: ex_client_def)
  have 3: "sends ?w = True # [True, True, True, True, True, True, True]"
    by (simp add: ex_world_def)
  have 4: "replies ?w = (True, Some ?r) # []" by (simp add: ex_world_def)
  have 5: "lockdown_check_result (Some ?r) ''StartSession'' \<noteq> RESULT_FAILURE"
    by (simp add: check_result_cases ex_reply_def RESULT_SUCCESS_def RESULT_FAILURE_def)
  have 6: "\<forall>s. plist_dict_get_item (Some ?r) ''SessionID'' \<noteq> Some (PLIST_STRING s)"
    by (simp add: ex_reply_def)
  have 7: "plist_dict_get_item (Some ?r) ''EnableSessionSSL'' \<noteq> Some (PLIST_BOOLEAN True)"
    by (simp add: ex_reply_def)
  have h: "userpref_get_host_id (trust ?w) \<noteq> None"
    by (simp add: userpref_get_host_id_def ex_world_def ex_trust_def)
  from start_session_without_session_id [OF 1 2 3 4 5 6 7, of "''HOST-0001''" "Some (PLIST_DICT [])"
      "Some ''com.apple.afc''"] h
  show ?thesis by auto
qed

text \<open>Counterexample to C10 as stated: the host id was given by the caller and the
  trust store has none; after the successful StartSession without a session id,
  StartService returns the invalid-configuration error.\<close>

theorem start_session_without_session_id_counterexample:
  "(case lockdownd_start_session ex_client (Some ''HOST-0001'')
           (ex_world (ex_trust\<lparr>up_host_id := None\<rparr>)
              [(True, Some (ex_reply ''StartSession'' ''Success''))]) of
      None \<Rightarrow> False
    | Some (ret, c', w') \<Rightarrow>
        ret = LOCKDOWN_E_SUCCESS \<and> session_id c' = None
        \<and> fst (lockdownd_start_service c' (Some ''com.apple.afc'') w') = LOCKDOWN_E_INVALID_CONF)
   \<and> LOCKDOWN_E_INVALID_CONF \<noteq> LOCKDOWN_E_NO_RUNNING_SESSION"
  by (simp add: lockdownd_start_session_def stop_running_session_def lockdownd_start_service_def
        userpref_get_host_id_def ex_defs io_defs)

section \<open>The handshaking constructor on a locked device\<close>

text \<open>
  Claim C8, as amended. Let the device connect and have a uuid unknown to the trust
  store, which has a host id, and let every request go out and be answered. If the
  Pair request is answered with a Failure whose error is \<^verbatim>\<open>PasswordProtected\<close>, the
  handshake goes on to ValidatePair, whose result replaces that of Pair; if this is not
  answered with a Success either, \<^verbatim>\<open>lockdownd_client_new_with_handshake\<close> returns the
  error of ValidatePair (\<^verbatim>\<open>PasswordProtected\<close> when that reply says so too,
  \<^verbatim>\<open>PairingFailed\<close> otherwise), the client is freed and none is handed out, and the
  trust store is unchanged.
\<close>

theorem handshake_password_protected:
  assumes "dev_connects device" and "dev_uuid device = Some u"
      and "userpref_get_host_id (trust w) = Some h"
      and "\<not> userpref_has_device_public_key u (trust w)"
      and "sends w = True # True # True # True # True # ss"
      and "replies w = (True, Some q) # (True, Some k1) # (True, Some p)
                        # (True, Some k2) # (True, Some v) # rs"
      and "lockdown_check_result (Some q) ''QueryType'' = RESULT_SUCCESS \<longrightarrow>
             plist_get_string_val (plist_dict_get_item (Some q) ''Type'') \<noteq> None"
      and "plist_dict_get_item (Some k1) ''Value'' = Some (PLIST_DATA key1)"
      and "map_option fst (lockdownd_gen_pair_cert (Some key1) (crypto w) (trust w)) = Some LOCKDOWN_E_SUCCESS"
      and "lockdown_check_result (Some p) ''Pair'' = RESULT_FAILURE"
      and "plist_dict_get_item (Some p) ''Error'' = Some (PLIST_STRING ''PasswordProtected'')"
      and "plist_dict_get_item (Some k2) ''Value'' = Some (PLIST_DATA key2)"
      and "map_option fst (lockdownd_gen_pair_cert (Some key2) (crypto w) (trust w)) = Some LOCKDOWN_E_SUCCESS"
      and "lockdown_check_result (Some v) ''ValidatePair'' \<noteq> RESULT_SUCCESS"
  shows "\<exists>w'. lockdownd_client_new_with_handshake device lbl w =
                Some (if plist_dict_get_item (Some v) ''Error'' = Some (PLIST_STRING ''PasswordProtected'')
                      then LOCKDOWN_E_PASSWORD_PROTECTED else LOCKDOWN_E_PAIRING_FAILED,
                      None, w')
              \<and> trust w' = trust w \<and> \<not> client_allocated w'"
proof -
  let ?c0 = "\<lparr>ssl_enabled = False, session_id = None, uuid = None, label = None\<rparr>"
  let ?c1 = "\<lparr>ssl_enabled = False, session_id = None, uuid = Some u, label = None\<rparr>"
  let ?w0 = "w\<lparr>client_allocated := True\<rparr>"
  let ?s1 = "True # True # True # True # ss"
  let ?r1 = "(True, Some k1) # (True, Some p) # (True, Some k2) # (True, Some v) # rs"
  define qreq where
    "qreq = plist_dict_insert_item (plist_dict_add_label plist_new_dict (label ?c0))
              ''Request'' (PLIST_STRING ''QueryType'')"
  define w1 where
    "w1 = ?w0\<lparr>sends := ?s1, wire := wire ?w0 @ [Sent (ssl_enabled ?c0) qreq, Received q],
              replies := ?r1\<rparr>"
  have w1: "sends w1 = ?s1" "replies w1 = ?r1" "trust w1 = trust w" "crypto w1 = crypto w"
    by (simp_all add: w1_def)
  have "sends ?w0 = True # ?s1" and "replies ?w0 = (True, Some q) # ?r1"
    using assms(5) assms(6) by simp_all
  from query_type_exchange [OF this, of ?c0]
  have Q: "lockdownd_query_type ?c0 ?w0 =
             (if lockdown_check_result (Some q) ''QueryType'' = RESULT_SUCCESS
              then (LOCKDOWN_E_SUCCESS,
                    plist_get_string_val (plist_dict_get_item (Some q) ''Type''), w1)
              else (LOCKDOWN_E_UNKNOWN_ERROR, None, w1))"
    by (simp add: Let_def w1_def qreq_def)
  from assms(9) w1 obtain dc1 hc1 rc1 where
    g1: "lockdownd_gen_pair_cert (Some key1) (crypto w1) (trust w1) = Some (LOCKDOWN_E_SUCCESS, dc1, hc1, rc1)"
    by (cases "lockdownd_gen_pair_cert (Some key1) (crypto w) (trust w)") auto
  have h1: "(if Some h = None then userpref_get_host_id (trust w1) else Some h) = Some h" by simp
  from assms(10) have np: "lockdown_check_result (Some p) ''Pair'' \<noteq> RESULT_SUCCESS"
    by (simp add: RESULT_SUCCESS_def RESULT_FAILURE_def)
  define w2 where
    "w2 = w1\<lparr>wire := wire w1 @ [Sent (ssl_enabled ?c1)
                                    (get_value_request (label ?c1) None (Some ''DevicePublicKey'')),
                                  Received k1,
                                  Sent (ssl_enabled ?c1)
                                    (pair_request (label ?c1) dc1 hc1 h rc1 ''Pair''),
                                  Received p],
              sends := True # True # ss, replies := (True, Some k2) # (True, Some v) # rs\<rparr>"
  have w2: "sends w2 = True # True # ss" "replies w2 = (True, Some k2) # (True, Some v) # rs"
           "trust w2 = trust w" "crypto w2 = crypto w"
    by (simp_all add: w2_def w1)
  have P: "lockdownd_do_pair ?c1 (Some h) ''Pair'' w1
             = Some (pair_failure_code (Some p) LOCKDOWN_E_PAIRING_FAILED, w2)"
    using np
    by (simp add: do_pair_exchange [OF w1(1) w1(2) assms(8) g1 h1] Let_def w2_def)
  from assms(13) w2 obtain dc2 hc2 rc2 where
    g2: "lockdownd_gen_pair_cert (Some key2) (crypto w2) (trust w2) = Some (LOCKDOWN_E_SUCCESS, dc2, hc2, rc2)"
    by (cases "lockdownd_gen_pair_cert (Some key2) (crypto w) (trust w)") auto
  have h2: "(if Some h = None then userpref_get_host_id (trust w2) else Some h) = Some h" by simp
  define w3 where
    "w3 = w2\<lparr>wire := wire w2 @ [Sent (ssl_enabled ?c1)
                                    (get_value_request (label ?c1) None (Some ''DevicePublicKey'')),
                                  Received k2,
                                  Sent (ssl_enabled ?c1)
                                    (pair_request (label ?c1) dc2 hc2 h rc2 ''ValidatePair''),
                                  Received v],
              sends := ss, replies := rs\<rparr>"
  have w3: "trust w3 = trust w"
    by (simp add: w3_def w2)
  have V: "lockdownd_do_pair ?c1 (Some h) ''ValidatePair'' w2 =
          Some (if plist_dict_get_item (Some v) ''Error'' = Some (PLIST_STRING ''PasswordProtected'')
                then LOCKDOWN_E_PASSWORD_PROTECTED else LOCKDOWN_E_PAIRING_FAILED, w3)"
    using assms(14)
    by (simp add: do_pair_exchange [OF w2(1) w2(2) assms(12) g2 h2] pair_failure_code_cases
          Let_def w3_def)
  obtain fret w4 where F: "lockdownd_client_free ?c1 w3 = (fret, w4)"
    by (cases "lockdownd_client_free ?c1 w3") auto
  from client_free_effect [OF F] w3 have w4: "trust w4 = trust w" "\<not> client_allocated w4"
    by simp_all
  have hid: "userpref_get_host_id (trust w1) = Some h"
    using assms(3) w1 by simp
  have nk: "\<not> userpref_has_device_public_key u (trust w1)"
    using assms(4) w1 by simp
  show ?thesis
    unfolding lockdownd_client_new_with_handshake_def lockdownd_client_new_def
      lockdownd_pair_def lockdownd_validate_pair_def
    using assms(1) assms(2) assms(7) hid nk w4
    by (auto simp: Let_def Q P V F)
qed

text \<open>Witness for C8: a locked device that refuses Pair and ValidatePair alike.\<close>

theorem handshake_password_protected_witness:
  "\<exists>w'. lockdownd_client_new_with_handshake ex_device (Some ''test'')
            (ex_world ex_trust
               [(True, Some (PLIST_DICT [(''Request'', PLIST_STRING ''QueryType''),
                                         (''Result'', PLIST_STRING ''Success''),
                                         (''Type'', PLIST_STRING ''com.apple.mobile.lockdown'')])),
                (True, Some ex_public_key_reply),
                (True, Some (ex_failure ''Pair'' ''PasswordProtected'')),
                (True, Some ex_public_key_reply),
                (True, Some (ex_failure ''ValidatePair'' ''PasswordProtected''))])
          = Some (LOCKDOWN_E_PASSWORD_PROTECTED, None, w')
        \<and> trust w' = ex_trust \<and> \<not> client_allocated w'"
proof -
  let ?q = "PLIST_DICT [(''Request'', PLIST_STRING ''QueryType''),
                        (''Result'', PLIST_STRING ''Success''),
                        (''Type'', PLIST_STRING ''com.apple.mobile.lockdown'')]"
  let ?p = "ex_failure ''Pair'' ''PasswordProtected''"
  let ?v = "ex_failure ''ValidatePair'' ''PasswordProtected''"
  let ?w = "ex_world ex_trust [(True, Some ?q), (True, Some ex_public_key_reply), (True, Some ?p),
                               (True, Some ex_public_key_reply), (True, Some ?v)]"
  have 1: "dev_connects ex_device" and 2: "dev_uuid ex_device = Some ''1111-2222''"
    by (simp_all add: ex_device_def)
  have 3: "userpref_get_host_id (trust ?w) = Some ''HOST-0001''"
    by (simp add: userpref_get_host_id_def ex_world_def ex_trust_def)
  have 4: "\<not> userpref_has_device_public_key ''1111-2222'' (trust ?w)"
    by (simp add: userpref_has_device_public_key_def ex_world_def ex_trust_def)
  have 5: "sends ?w = True # True # True # True # True # [True, True, True]"
    by (simp add: ex_world_def)
  have 6: "replies ?w = (True, Some ?q) # (True, Some ex_public_key_reply) # (True, Some ?p)
                         # (True, Some ex_public_key_reply) # (True, Some ?v) # []"
    by (simp add: ex_world_def)
  have 7: "lockdown_check_result (Some ?q) ''QueryType'' = RESULT_SUCCESS \<longrightarrow>
             plist_get_string_val (plist_dict_get_item (Some ?q) ''Type'') \<noteq> None"
    by simp
  have 8: "plist_dict_get_item (Some ex_public_key_reply) ''Value'' = Some (PLIST_DATA ''DEVICE-KEY'')"
    by (simp add: ex_public_key_reply_def)
  have 9: "map_option fst (lockdownd_gen_pair_cert (Some ''DEVICE-KEY'') (crypto ?w) (trust ?w)) = Some LOCKDOWN_E_SUCCESS"
    by (simp add: lockdownd_gen_pair_cert_def ex_world_def ex_trust_def ex_crypto_def)
  have 10: "lockdown_check_result (Some ?p) ''Pair'' = RESULT_FAILURE"
    by (simp add: check_result_cases ex_failure_def)
  have 11: "plist_dict_get_item (Some ?p) ''Error'' = Some (PLIST_STRING ''PasswordProtected'')"
    by (simp add: ex_failure_def)
  have 12: "lockdown_check_result (Some ?v) ''ValidatePair'' \<noteq> RESULT_SUCCESS"
    by (simp add: check_result_cases ex_failure_def RESULT_SUCCESS_def RESULT_FAILURE_def)
  have 13: "plist_dict_get_item (Some ?v) ''Error'' = Some (PLIST_STRING ''PasswordProtected'')"
    by (simp add: ex_failure_def)
  have t: "trust ?w = ex_trust" by (simp add: ex_world_def)
  from handshake_password_protected [OF 1 2 3 4 5 6 7 8 9 10 11 8 9 12, of "Some ''test''"]
  show ?thesis
    unfolding 13 t by simp
qed

text \<open>Counterexample to C8 as stated: Pair is refused with \<^verbatim>\<open>PasswordProtected\<close>,
  ValidatePair with \<^verbatim>\<open>InvalidHostID\<close>; the constructor returns \<^verbatim>\<open>PairingFailed\<close>.\<close>

theorem handshake_password_protected_counterexample:
  "map_option (\<lambda>(ret, client, w'). (ret, client))
     (lockdownd_client_new_with_handshake ex_device (Some ''test'')
        (ex_world ex_trust
           [(True, Some (PLIST_DICT [(''Request'', PLIST_STRING ''QueryType''),
                                     (''Result'', PLIST_STRING ''Success''),
                                     (''Type'', PLIST_STRING ''com.apple.mobile.lockdown'')])),
            (True, Some ex_public_key_reply),
            (True, Some (ex_failure ''Pair'' ''PasswordProtected'')),
            (True, Some ex_public_key_reply),
            (True, Some (ex_failure ''ValidatePair'' ''InvalidHostID''))]))
     = Some (LOCKDOWN_E_PAIRING_FAILED, None)
   \<and> LOCKDOWN_E_PAIRING_FAILED \<noteq> LOCKDOWN_E_PASSWORD_PROTECTED"
  by (simp add: lockdownd_client_new_with_handshake_def lockdownd_client_new_def
        lockdownd_query_type_def lockdownd_pair_def lockdownd_validate_pair_def
        lockdownd_do_pair_def lockdownd_get_device_public_key_def lockdownd_get_value_def
        get_value_request_def lockdownd_gen_pair_cert_def pair_request_def pair_failure_code_def
        lockdownd_client_free_def lockdownd_goodbye_def
        userpref_get_host_id_def userpref_has_device_public_key_def ex_defs io_defs)

end
